theory Spec2Isabelle
  imports Main "HOL-Library.Sublist"
begin

section \<open>JavaScript strings\<close>

text \<open>
  Strings are lists of characters. The model covers ASCII text: \<open>toLowerCase\<close> maps the
  letters A to Z to a to z and leaves every other character alone, and \<open>trim\<close> removes the
  ASCII white space (tab, line feed, vertical tab, form feed, carriage return, space).
\<close>

definition toLowerCase_char :: "char \<Rightarrow> char" where
  "toLowerCase_char c =
     (case map_of (zip ''ABCDEFGHIJKLMNOPQRSTUVWXYZ'' ''abcdefghijklmnopqrstuvwxyz'') c of
        Some l \<Rightarrow> l
      | None \<Rightarrow> c)"

definition toLowerCase :: "string \<Rightarrow> string" where
  "toLowerCase s = map toLowerCase_char s"

definition isSpace :: "char \<Rightarrow> bool" where
  "isSpace c = (c \<in> set [CHR 0x09, CHR 0x0A, CHR 0x0B, CHR 0x0C, CHR 0x0D, CHR '' ''])"

definition trim :: "string \<Rightarrow> string" where
  "trim s = rev (dropWhile isSpace (rev (dropWhile isSpace s)))"

text \<open>\<open>s.split(sep)\<close> for a one-character separator: never the empty list.\<close>

fun split_on :: "char \<Rightarrow> string \<Rightarrow> string list" where
  "split_on sep [] = [[]]"
| "split_on sep (c # cs) =
     (if c = sep then [] # split_on sep cs
      else (case split_on sep cs of
              [] \<Rightarrow> [[c]]
            | p # ps \<Rightarrow> (c # p) # ps))"

text \<open>\<open>s.includes(pat)\<close>: \<open>pat\<close> occurs in \<open>s\<close> as a contiguous run.\<close>

fun str_includes :: "string \<Rightarrow> string \<Rightarrow> bool" where
  "str_includes [] pat = (pat = [])"
| "str_includes (c # cs) pat = (prefix pat (c # cs) \<or> str_includes cs pat)"

text \<open>\<open>xs.join(sep)\<close>.\<close>

fun join :: "string \<Rightarrow> string list \<Rightarrow> string" where
  "join sep [] = []"
| "join sep [x] = x"
| "join sep (x # y # ys) = x @ sep @ join sep (y # ys)"


section \<open>The process environment\<close>

text \<open>
  \<open>process.env\<close> and \<open>process.cwd()\<close>. A variable that is not set reads as \<open>undefined\<close>,
  here \<open>None\<close>.
\<close>

record process =
  NODE_ENV :: "string option"
  TRACE_CONTEXT :: "string option"
  TRACE_FILE :: "string option"
  TRACE_LEVEL :: "string option"
  cwd :: string

text \<open>
  \<open>normalizeEnv\<close>: an unset or empty variable gives no entries; otherwise the value is
  split at commas, each piece lower-cased and trimmed, and the empty pieces dropped.
\<close>

definition normalizeEnv :: "string option \<Rightarrow> string list" where
  "normalizeEnv input =
     (case input of
        None \<Rightarrow> []
      | Some s \<Rightarrow>
          if s = [] then []
          else filter (\<lambda>id. id \<noteq> []) (map (\<lambda>c. trim (toLowerCase c)) (split_on CHR '','' s)))"

definition PRESERVE_CONTEXTS :: "process \<Rightarrow> string list" where
  "PRESERVE_CONTEXTS p = normalizeEnv (TRACE_CONTEXT p)"

definition PRESERVE_FILES :: "process \<Rightarrow> string list" where
  "PRESERVE_FILES p = normalizeEnv (TRACE_FILE p)"

definition PRESERVE_LEVELS :: "process \<Rightarrow> string list" where
  "PRESERVE_LEVELS p = normalizeEnv (TRACE_LEVEL p)"


section \<open>The strip option\<close>

text \<open>
  \<open>strip?: boolean | string | {[key: string]: boolean}\<close>. An object is the list of its own
  properties. Property lookup is modelled for own properties only; what a value inherits
  from its prototype is outside the model.
\<close>

datatype strip_config =
    StripAbsent
  | StripBool bool
  | StripString string
  | StripMap "(string \<times> bool) list"

text \<open>JavaScript truthiness of the option: \<open>undefined\<close>, \<open>false\<close> and \<open>""\<close> are falsy.\<close>

fun strip_truthy :: "strip_config \<Rightarrow> bool" where
  "strip_truthy StripAbsent = False"
| "strip_truthy (StripBool b) = b"
| "strip_truthy (StripString s) = (s \<noteq> [])"
| "strip_truthy (StripMap m) = True"

text \<open>
  A property key: \<open>strip[process.env.NODE_ENV]\<close> converts the key to a string, so an unset
  \<open>NODE_ENV\<close> asks for the property named \<open>undefined\<close>.
\<close>

definition property_key :: "string option \<Rightarrow> string" where
  "property_key k = (case k of None \<Rightarrow> ''undefined'' | Some s \<Rightarrow> s)"

text \<open>
  The canonical numeric index a key denotes, if any: \<open>0\<close>, or decimal digits with no
  leading zero.
\<close>

definition digit_of :: "char \<Rightarrow> nat option" where
  "digit_of c = map_of (zip ''0123456789'' [0, 1, 2, 3, 4, 5, 6, 7, 8, 9]) c"

fun digits_value :: "nat \<Rightarrow> string \<Rightarrow> nat option" where
  "digits_value acc [] = Some acc"
| "digits_value acc (c # cs) =
     (case digit_of c of None \<Rightarrow> None | Some d \<Rightarrow> digits_value (acc * 10 + d) cs)"

definition array_index :: "string \<Rightarrow> nat option" where
  "array_index k =
     (if k = [] then None
      else if hd k = CHR ''0'' \<and> length k > 1 then None
      else digits_value 0 k)"

text \<open>
  Truthiness of \<open>strip[key]\<close>. On a boolean there is no own property. A string has its
  characters at their indices (each a one-character string, truthy) and \<open>length\<close> (a
  number, truthy unless zero). An object has the own properties it was given.
\<close>

fun strip_property_truthy :: "strip_config \<Rightarrow> string \<Rightarrow> bool" where
  "strip_property_truthy StripAbsent k = False"
| "strip_property_truthy (StripBool b) k = False"
| "strip_property_truthy (StripString s) k =
     (if k = ''length'' then length s \<noteq> 0
      else (case array_index k of None \<Rightarrow> False | Some i \<Rightarrow> i < length s))"
| "strip_property_truthy (StripMap m) k = (case map_of m k of None \<Rightarrow> False | Some b \<Rightarrow> b)"

text \<open>
  The condition of \<open>shouldStrip\<close>:
  \<open>strip && (strip === true || strip === process.env.NODE_ENV || strip[process.env.NODE_ENV])\<close>.
\<close>

definition strip_requested :: "process \<Rightarrow> strip_config \<Rightarrow> bool" where
  "strip_requested p strip =
     (strip_truthy strip \<and>
       (strip = StripBool True \<or>
        (case strip of StripString s \<Rightarrow> NODE_ENV p = Some s | _ \<Rightarrow> False) \<or>
        strip_property_truthy strip (property_key (NODE_ENV p))))"


section \<open>File paths\<close>

text \<open>
  The four functions of Node's \<open>path\<close> module that the plugin calls, in their POSIX form.
  A path component is what lies between two slashes; trailing slashes are ignored.
\<close>

definition isSlash :: "char \<Rightarrow> bool" where
  "isSlash c = (c = CHR ''/'')"

definition strip_trailing_slashes :: "string \<Rightarrow> string" where
  "strip_trailing_slashes s = rev (dropWhile isSlash (rev s))"

definition last_component :: "string \<Rightarrow> string" where
  "last_component path =
     rev (takeWhile (\<lambda>c. \<not> isSlash c) (rev (strip_trailing_slashes path)))"

text \<open>\<open>path.basename(path)\<close> and \<open>path.basename(path, ext)\<close>.\<close>

definition fspath_basename :: "string \<Rightarrow> string" where
  "fspath_basename path = last_component path"

definition fspath_basename_ext :: "string \<Rightarrow> string \<Rightarrow> string" where
  "fspath_basename_ext path ext =
     (if ext \<noteq> [] \<and> length ext \<le> length path then
        (if ext = path then []
         else (let b = last_component path in
               if drop (length b - length ext) b = ext \<and> b \<noteq> ext
               then take (length b - length ext) b else b))
      else last_component path)"

text \<open>
  \<open>path.extname(path)\<close>: from the last dot of the last component to its end; empty when
  there is no dot, when the only dot starts the component, or when the component is \<open>..\<close>.
\<close>

definition fspath_extname :: "string \<Rightarrow> string" where
  "fspath_extname path =
     (let b = last_component path in
      if CHR ''.'' \<notin> set b then []
      else (let i = length b - 1 - length (takeWhile (\<lambda>c. c \<noteq> CHR ''.'') (rev b)) in
            if i = 0 \<or> b = ''..'' then [] else drop i b))"

text \<open>
  \<open>path.dirname(path)\<close>: the path up to the slash before its last component. The first
  character is never taken for that slash.
\<close>

definition fspath_dirname :: "string \<Rightarrow> string" where
  "fspath_dirname path =
     (if path = [] then ''.''
      else (let hasRoot = isSlash (hd path);
                t = strip_trailing_slashes (tl path) in
            if \<not> list_ex isSlash t then (if hasRoot then ''/'' else ''.'')
            else (let e = length t - length (takeWhile (\<lambda>c. \<not> isSlash c) (rev t)) in
                  if hasRoot \<and> e = 1 then ''//'' else take e path)))"

text \<open>
  \<open>path.resolve(process.cwd(), filename)\<close>, the working directory being absolute: an
  absolute file name stands alone, a relative one is appended to the working directory; the
  empty and \<open>.\<close> components are dropped, and \<open>..\<close> drops the component before it.
\<close>

fun normalize_components :: "string list \<Rightarrow> string list \<Rightarrow> string list" where
  "normalize_components acc [] = rev acc"
| "normalize_components acc (c # cs) =
     (if c = [] \<or> c = ''.'' then normalize_components acc cs
      else if c = ''..'' then normalize_components (case acc of [] \<Rightarrow> [] | _ # a \<Rightarrow> a) cs
      else normalize_components (c # acc) cs)"

definition fspath_resolve :: "string \<Rightarrow> string \<Rightarrow> string" where
  "fspath_resolve dir file =
     (let full = (if file \<noteq> [] \<and> isSlash (hd file) then file else dir @ ''/'' @ file)
      in ''/'' @ join ''/'' (normalize_components [] (split_on CHR ''/'' full)))"

text \<open>\<open>generatePrefix(dirname, basename)\<close>.\<close>

definition generatePrefix :: "string \<Rightarrow> string \<Rightarrow> string" where
  "generatePrefix dirname basename =
     (if basename \<noteq> ''index'' then basename
      else (let basename' = fspath_basename dirname in
            if basename' \<noteq> ''src'' \<and> basename' \<noteq> ''lib'' then basename'
            else fspath_basename (fspath_dirname dirname)))"


section \<open>Syntax trees\<close>

text \<open>
  The part of the Babel syntax tree the plugin looks at. An expression statement carries
  the \<open>handled\<close> marker (the property keyed by the symbol \<open>$handled\<close>); no other node is ever
  given one. Functions keep their name, parameters and body statements; a class is the list
  of its members.
\<close>

datatype expr =
    Identifier string
  | StringLiteral string
  | NumericLiteral int
  | BooleanLiteral bool
  | NullLiteral
  | SequenceExpression "expr list"
  | CallExpression expr "expr list"
  | MemberExpression expr expr
  | BinaryExpression string expr expr
  | ObjectExpression "property list"
  | AssignmentExpression string expr expr
  | UpdateExpression string bool expr
  | YieldExpression "expr option"
  | FunctionExpression "string option" "string list" "stmt list"
  | ArrowFunctionExpression "string list" "stmt list"
  | ClassExpression "string option" "member list"
and property =
    ObjectProperty string expr
and member =
    ClassMethod string "string list" "stmt list"
  | ClassProperty string "expr option"
and stmt =
    ExpressionStatement bool expr
  | BlockStatement "stmt list"
  | LabeledStatement string stmt
  | IfStatement expr stmt "stmt option"
  | ReturnStatement "expr option"
  | VariableDeclaration string string "expr option"
  | FunctionDeclaration string "string list" "stmt list"
  | ClassDeclaration string "member list"
  | EmptyStatement

datatype node = StmtNode stmt | ExprNode expr

text \<open>\<open>node[$handled]\<close>.\<close>

fun handled :: "stmt \<Rightarrow> bool" where
  "handled (ExpressionStatement h e) = h"
| "handled s = False"

text \<open>
  What the plugin raises: \<open>path.buildCodeFrameError(message)\<close>, and the \<open>TypeError\<close> of the
  host when a node builder is given a node of the wrong kind or a value that is not a
  function is called.
\<close>

datatype error = CodeFrameError string | TypeError


section \<open>Metadata and messages\<close>

record Metadata =
  md_indent :: nat
  md_prefix :: string
  md_parentName :: string
  md_context :: string
  md_hasStartMessage :: bool
  md_isStartMessage :: bool
  md_filename :: string
  md_dirname :: string
  md_basename :: string
  md_extname :: string

record Message =
  msg_prefix :: expr
  msg_content :: expr
  msg_hasStartMessage :: expr
  msg_isStartMessage :: expr
  msg_indent :: expr
  msg_parentName :: expr
  msg_filename :: expr
  msg_dirname :: expr
  msg_basename :: expr
  msg_extname :: expr

text \<open>
  The message as the object it is: its properties by name, in the order the object literal
  of \<open>handleLabeledStatement\<close> lists them. A template receives it in this form.
\<close>

definition message_ids :: "Message \<Rightarrow> (string \<times> expr) list" where
  "message_ids m =
     [(''prefix'', msg_prefix m),
      (''content'', msg_content m),
      (''hasStartMessage'', msg_hasStartMessage m),
      (''isStartMessage'', msg_isStartMessage m),
      (''indent'', msg_indent m),
      (''parentName'', msg_parentName m),
      (''filename'', msg_filename m),
      (''dirname'', msg_dirname m),
      (''basename'', msg_basename m),
      (''extname'', msg_extname m)]"

type_synonym LogFunction = "Message \<Rightarrow> Metadata \<Rightarrow> node"

text \<open>
  The host: \<open>template(source)\<close> compiles a source text into a function from placeholder
  values to a node. The builders of \<open>types\<close> are the constructors of the tree.
\<close>

record PluginParams =
  template :: "string \<Rightarrow> (string \<times> expr) list \<Rightarrow> node"

text \<open>
  \<open>expression(input, template)\<close>: like \<open>template\<close>, but an expression statement gives its
  expression. Of the nodes modelled only an expression statement has an \<open>expression\<close>.
\<close>

definition expression :: "string \<Rightarrow> (string \<Rightarrow> (string \<times> expr) list \<Rightarrow> node) \<Rightarrow> (string \<times> expr) list \<Rightarrow> node" where
  "expression input tpl ids =
     (case tpl input ids of
        StmtNode (ExpressionStatement h e) \<Rightarrow> ExprNode e
      | n \<Rightarrow> n)"

text \<open>
  \<open>getLogFunction(babel, logLevel)\<close>. \<open>(new Array(indent + 1)).join('  ')\<close> joins
  \<open>indent + 1\<close> empty slots with two spaces.
\<close>

definition getLogFunction :: "PluginParams \<Rightarrow> string \<Rightarrow> LogFunction" where
  "getLogFunction babel logLevel = (\<lambda>message metadata.
     (let prefix0 = md_context metadata @ '':'';
          prefix1 = (if md_indent metadata \<noteq> 0
                     then prefix0 @ join ''  '' (replicate (md_indent metadata + 1) [])
                     else prefix0)
      in case msg_content message of
           SequenceExpression expressions \<Rightarrow>
             ExprNode (CallExpression
               (MemberExpression (Identifier ''console'') (Identifier logLevel))
               ([StringLiteral prefix1] @ expressions))
         | content \<Rightarrow>
             expression ''console.LOGLEVEL(PREFIX, CONTENT)'' (template babel)
               [(''LOGLEVEL'', Identifier logLevel),
                (''PREFIX'', StringLiteral prefix1),
                (''CONTENT'', content)]))"


section \<open>Plugin options\<close>

text \<open>
  An alias is a template text or a function. \<open>aliases\<close> is the object as the list of its own
  properties, \<open>None\<close> when the option is absent; \<open>normalized\<close> is the property keyed by the
  symbol \<open>$normalized\<close>.
\<close>

datatype alias_value = AliasString string | AliasFunction LogFunction

record PluginOptions =
  aliases :: "(string \<times> alias_value) list option"
  strip :: strip_config
  normalized :: bool

text \<open>Truthiness of an alias: only the empty string is falsy.\<close>

fun alias_truthy :: "alias_value \<Rightarrow> bool" where
  "alias_truthy (AliasString s) = (s \<noteq> [])"
| "alias_truthy (AliasFunction f) = True"

text \<open>
  Truthiness of \<open>opts.aliases[name]\<close>, for the own properties of the object; a name that
  is none of them reads as \<open>undefined\<close>.
\<close>

definition has_alias :: "PluginOptions \<Rightarrow> string \<Rightarrow> bool" where
  "has_alias opts name =
     (case aliases opts of
        None \<Rightarrow> False
      | Some al \<Rightarrow> (case map_of al name of None \<Rightarrow> False | Some a \<Rightarrow> alias_truthy a))"

text \<open>\<open>normalizeOpts(babel, opts)\<close>; the options object is updated in place, here returned.\<close>

definition normalizeAlias :: "PluginParams \<Rightarrow> alias_value \<Rightarrow> alias_value" where
  "normalizeAlias babel a =
     (case a of
        AliasString s \<Rightarrow>
          if s \<noteq> [] then AliasFunction (\<lambda>message metadata. expression s (template babel) (message_ids message))
          else a
      | AliasFunction f \<Rightarrow> a)"

definition normalizeOpts :: "PluginParams \<Rightarrow> PluginOptions \<Rightarrow> PluginOptions" where
  "normalizeOpts babel opts =
     (if normalized opts then opts
      else (case aliases opts of
              None \<Rightarrow>
                (let log = getLogFunction babel ''log'' in
                 opts\<lparr>aliases := Some [(''log'', AliasFunction log),
                                        (''trace'', AliasFunction log),
                                        (''warn'', AliasFunction (getLogFunction babel ''warn''))],
                      normalized := True\<rparr>)
            | Some al \<Rightarrow>
                opts\<lparr>aliases := Some (map (\<lambda>(key, a). (key, normalizeAlias babel a)) al),
                     normalized := True\<rparr>))"


section \<open>Collecting the metadata\<close>

text \<open>
  A node path gives the labeled statement (its label and body), the file name of the
  compilation, the ancestors of the statement from its parent outwards
  (\<open>path.getAncestry().slice(1)\<close>), and, when the statement is itself one of the body
  statements of its nearest enclosing function or method, its position among them: node
  identity is position in the tree.
\<close>

datatype method_key = KeyIdentifier string | KeyOther

datatype ancestor =
    ClassMethodPath method_key "stmt list"
  | ClassDeclarationPath "string option" nat
  | FunctionPath "string option" nat "stmt list"
  | ProgramPath
  | ClassBodyPath
  | BlockStatementPath
  | OtherPath

record NodePath =
  label :: string
  body :: stmt
  hub_filename :: string
  ancestry :: "ancestor list"
  body_index :: "nat option"

text \<open>A line number in decimal, for the names of anonymous functions and classes.\<close>

definition digit_char :: "nat \<Rightarrow> char" where
  "digit_char d = ''0123456789'' ! d"

fun show_nat :: "nat \<Rightarrow> string" where
  "show_nat n = (if n < 10 then [digit_char n] else show_nat (n div 10) @ [digit_char (n mod 10)])"

text \<open>
  The \<open>reduce\<close> over the ancestors: the names collected so far (each new one put in front),
  the parent scope once found, and the indent.
\<close>

record walk =
  parts :: "string list"
  parent :: "ancestor option"
  indent :: nat

definition set_parent :: "ancestor \<Rightarrow> walk \<Rightarrow> walk" where
  "set_parent item w = (if parent w = None then w\<lparr>parent := Some item\<rparr> else w)"

fun ancestry_step :: "walk \<Rightarrow> ancestor \<Rightarrow> walk" where
  "ancestry_step w (ClassMethodPath key b) =
     (let w' = set_parent (ClassMethodPath key b) w in
      w'\<lparr>parts := (case key of KeyIdentifier name \<Rightarrow> name | KeyOther \<Rightarrow> ''[computed method]'') # parts w'\<rparr>)"
| "ancestry_step w (ClassDeclarationPath ident line) =
     (let w' = set_parent (ClassDeclarationPath ident line) w in
      w'\<lparr>parts := (case ident of Some name \<Rightarrow> name
                              | None \<Rightarrow> ''[anonymous class@'' @ show_nat line @ '']'') # parts w'\<rparr>)"
| "ancestry_step w (FunctionPath ident line b) =
     (let w' = set_parent (FunctionPath ident line b) w in
      w'\<lparr>parts := (case ident of
                      Some name \<Rightarrow> if name \<noteq> [] then name else ''[anonymous@'' @ show_nat line @ '']''
                    | None \<Rightarrow> ''[anonymous@'' @ show_nat line @ '']'') # parts w'\<rparr>)"
| "ancestry_step w ProgramPath = set_parent ProgramPath w"
| "ancestry_step w item =
     (if parent w = None \<and> item \<noteq> ClassBodyPath \<and> item \<noteq> BlockStatementPath
      then w\<lparr>indent := indent w + 1\<rparr> else w)"

text \<open>
  The scan for the start message over \<open>parent.get('body').get('body')\<close>, the position of
  each child counted from 0: the pair \<open>(hasStartMessage, isStartMessage)\<close>.
\<close>

fun startMessageScan :: "PluginOptions \<Rightarrow> nat option \<Rightarrow> nat \<Rightarrow> stmt list \<Rightarrow> bool \<times> bool" where
  "startMessageScan opts self i [] = (False, False)"
| "startMessageScan opts self i (child # rest) =
     (if handled child then (True, False)
      else (case child of
              LabeledStatement name b \<Rightarrow>
                if has_alias opts name then (True, self = Some i)
                else startMessageScan opts self (Suc i) rest
            | _ \<Rightarrow> (False, False)))"

text \<open>
  The children scanned. The members of a class declaration are neither labeled statements
  nor marked, so the scan of a class sets no flag, as the scan of no children does.
\<close>

fun scope_children :: "ancestor \<Rightarrow> stmt list" where
  "scope_children (ClassMethodPath key b) = b"
| "scope_children (FunctionPath ident line b) = b"
| "scope_children item = []"

definition startMessage :: "PluginOptions \<Rightarrow> NodePath \<Rightarrow> ancestor option \<Rightarrow> bool \<times> bool" where
  "startMessage opts path par =
     (case par of
        None \<Rightarrow> (False, False)
      | Some item \<Rightarrow>
          if item = ProgramPath then (False, False)
          else startMessageScan opts (body_index path) 0 (scope_children item))"

definition collectMetadata :: "process \<Rightarrow> NodePath \<Rightarrow> PluginOptions \<Rightarrow> Metadata" where
  "collectMetadata p path opts =
     (let filename = fspath_resolve (cwd p) (hub_filename path);
          dirname = fspath_dirname filename;
          extname = fspath_extname filename;
          basename = fspath_basename_ext filename extname;
          prefix = generatePrefix dirname basename;
          w = foldl ancestry_step \<lparr>parts = [], parent = None, indent = 0\<rparr> (ancestry path);
          parentName = join '':'' (parts w);
          flags = startMessage opts path (parent w)
      in \<lparr>md_indent = indent w,
          md_prefix = prefix,
          md_parentName = parentName,
          md_context = prefix @ '':'' @ parentName,
          md_hasStartMessage = fst flags,
          md_isStartMessage = snd flags,
          md_filename = filename,
          md_dirname = dirname,
          md_basename = basename,
          md_extname = extname\<rparr>)"

section \<open>The strip decision\<close>

text \<open>\<open>shouldStrip(name, metadata, {strip})\<close>. The three \<open>length\<close> guards are kept.\<close>

definition shouldStrip :: "process \<Rightarrow> string \<Rightarrow> Metadata \<Rightarrow> PluginOptions \<Rightarrow> bool" where
  "shouldStrip p name metadata opts =
     (if strip_requested p (strip opts) then
        (if PRESERVE_CONTEXTS p \<noteq> [] \<and>
            list_ex (\<lambda>pc. str_includes (toLowerCase (md_context metadata)) pc) (PRESERVE_CONTEXTS p)
         then False
         else if PRESERVE_FILES p \<noteq> [] \<and>
            list_ex (\<lambda>pf. str_includes (toLowerCase (md_filename metadata)) pf) (PRESERVE_FILES p)
         then False
         else if PRESERVE_LEVELS p \<noteq> [] \<and>
            list_ex (\<lambda>pl. toLowerCase name = pl) (PRESERVE_LEVELS p)
         then False
         else True)
      else False)"


section \<open>Rewriting a labeled statement\<close>

text \<open>
  \<open>path.traverse\<close> walks the body in document order with two visitors. The first throws
  at a variable declaration, a function (declaration, expression, arrow function, object or
  class method), an assignment, an update, a yield or a return; it throws on entering the
  node, so nothing below a function is looked at. On expressions that is all the walk does:
  \<open>sideEffect_expr\<close> tells whether it throws.
\<close>

fun sideEffect_expr :: "expr \<Rightarrow> bool"
  and sideEffect_exprs :: "expr list \<Rightarrow> bool"
  and sideEffect_property :: "property \<Rightarrow> bool"
  and sideEffect_properties :: "property list \<Rightarrow> bool"
  and sideEffect_member :: "member \<Rightarrow> bool"
  and sideEffect_members :: "member list \<Rightarrow> bool"
where
  "sideEffect_expr (Identifier n) = False"
| "sideEffect_expr (StringLiteral s) = False"
| "sideEffect_expr (NumericLiteral n) = False"
| "sideEffect_expr (BooleanLiteral b) = False"
| "sideEffect_expr NullLiteral = False"
| "sideEffect_expr (SequenceExpression es) = sideEffect_exprs es"
| "sideEffect_expr (CallExpression f as) = (sideEffect_expr f \<or> sideEffect_exprs as)"
| "sideEffect_expr (MemberExpression a b) = (sideEffect_expr a \<or> sideEffect_expr b)"
| "sideEffect_expr (BinaryExpression opr a b) = (sideEffect_expr a \<or> sideEffect_expr b)"
| "sideEffect_expr (ObjectExpression ps) = sideEffect_properties ps"
| "sideEffect_expr (AssignmentExpression opr a b) = True"
| "sideEffect_expr (UpdateExpression opr pre a) = True"
| "sideEffect_expr (YieldExpression a) = True"
| "sideEffect_expr (FunctionExpression n ps b) = True"
| "sideEffect_expr (ArrowFunctionExpression ps b) = True"
| "sideEffect_expr (ClassExpression n ms) = sideEffect_members ms"
| "sideEffect_exprs [] = False"
| "sideEffect_exprs (e # es) = (sideEffect_expr e \<or> sideEffect_exprs es)"
| "sideEffect_property (ObjectProperty k v) = sideEffect_expr v"
| "sideEffect_properties [] = False"
| "sideEffect_properties (p # ps) = (sideEffect_property p \<or> sideEffect_properties ps)"
| "sideEffect_member (ClassMethod k ps b) = True"
| "sideEffect_member (ClassProperty k v) = (case v of None \<Rightarrow> False | Some e \<Rightarrow> sideEffect_expr e)"
| "sideEffect_members [] = False"
| "sideEffect_members (m # ms) = (sideEffect_member m \<or> sideEffect_members ms)"

definition sideEffectsError :: error where
  "sideEffectsError = CodeFrameError ''Logging statements cannot have side effects.''"

text \<open>
  The second visitor replaces an expression statement that is not marked. The host visits
  the replacement in place of the old statement: the second visitor finds it marked and
  leaves it, and the walk goes on below the replacement, where the first visitor looks at
  what the renderer returned. \<open>rw\<close> is the replacement of the statement's expression.
\<close>

fun traverse_stmt :: "(expr \<Rightarrow> error + expr) \<Rightarrow> stmt \<Rightarrow> error + stmt"
  and traverse_stmts :: "(expr \<Rightarrow> error + expr) \<Rightarrow> stmt list \<Rightarrow> error + stmt list"
where
  "traverse_stmt rw (ExpressionStatement h e) =
     (if h then (if sideEffect_expr e then Inl sideEffectsError else Inr (ExpressionStatement h e))
      else (case rw e of
              Inl err \<Rightarrow> Inl err
            | Inr r \<Rightarrow> if sideEffect_expr r then Inl sideEffectsError
                       else Inr (ExpressionStatement True r)))"
| "traverse_stmt rw (BlockStatement ss) =
     (case traverse_stmts rw ss of Inl err \<Rightarrow> Inl err | Inr ss' \<Rightarrow> Inr (BlockStatement ss'))"
| "traverse_stmt rw (LabeledStatement l s) =
     (case traverse_stmt rw s of Inl err \<Rightarrow> Inl err | Inr s' \<Rightarrow> Inr (LabeledStatement l s'))"
| "traverse_stmt rw (IfStatement c t a) =
     (if sideEffect_expr c then Inl sideEffectsError
      else (case traverse_stmt rw t of
              Inl err \<Rightarrow> Inl err
            | Inr t' \<Rightarrow>
                (case a of
                   None \<Rightarrow> Inr (IfStatement c t' None)
                 | Some s \<Rightarrow>
                     (case traverse_stmt rw s of
                        Inl err \<Rightarrow> Inl err
                      | Inr s' \<Rightarrow> Inr (IfStatement c t' (Some s'))))))"
| "traverse_stmt rw (ReturnStatement a) = Inl sideEffectsError"
| "traverse_stmt rw (VariableDeclaration kind n init) = Inl sideEffectsError"
| "traverse_stmt rw (FunctionDeclaration n ps b) = Inl sideEffectsError"
| "traverse_stmt rw (ClassDeclaration n ms) =
     (if sideEffect_members ms then Inl sideEffectsError else Inr (ClassDeclaration n ms))"
| "traverse_stmt rw EmptyStatement = Inr EmptyStatement"
| "traverse_stmts rw [] = Inr []"
| "traverse_stmts rw (s # ss) =
     (case traverse_stmt rw s of
        Inl err \<Rightarrow> Inl err
      | Inr s' \<Rightarrow> (case traverse_stmts rw ss of Inl err \<Rightarrow> Inl err | Inr ss' \<Rightarrow> Inr (s' # ss')))"

text \<open>The message built for a statement's expression.\<close>

definition buildMessage :: "Metadata \<Rightarrow> expr \<Rightarrow> Message" where
  "buildMessage metadata content =
     \<lparr>msg_prefix = StringLiteral (md_prefix metadata),
      msg_content = content,
      msg_hasStartMessage = BooleanLiteral (md_hasStartMessage metadata),
      msg_isStartMessage = BooleanLiteral (md_isStartMessage metadata),
      msg_indent = NumericLiteral (int (md_indent metadata)),
      msg_parentName = StringLiteral (md_parentName metadata),
      msg_filename = StringLiteral (md_filename metadata),
      msg_dirname = StringLiteral (md_dirname metadata),
      msg_basename = StringLiteral (md_basename metadata),
      msg_extname = StringLiteral (md_extname metadata)\<rparr>"

text \<open>
  \<open>opts.aliases[name](message, metadata)\<close>, then \<open>t.expressionStatement\<close>, which accepts
  an expression only.
\<close>

definition callAlias :: "PluginOptions \<Rightarrow> string \<Rightarrow> Message \<Rightarrow> Metadata \<Rightarrow> error + node" where
  "callAlias opts name message metadata =
     (case aliases opts of
        None \<Rightarrow> Inl TypeError
      | Some al \<Rightarrow>
          (case map_of al name of
             Some (AliasFunction f) \<Rightarrow> Inr (f message metadata)
           | _ \<Rightarrow> Inl TypeError))"

definition replacementFor :: "PluginOptions \<Rightarrow> string \<Rightarrow> Metadata \<Rightarrow> expr \<Rightarrow> error + expr" where
  "replacementFor opts name metadata content =
     (case callAlias opts name (buildMessage metadata content) metadata of
        Inl err \<Rightarrow> Inl err
      | Inr (ExprNode r) \<Rightarrow> Inr r
      | Inr (StmtNode s) \<Rightarrow> Inl TypeError)"

text \<open>
  What \<open>handleLabeledStatement\<close> does to the statement: nothing, \<open>path.remove()\<close>,
  \<open>path.replaceWith(node)\<close> or \<open>path.replaceWithMultiple(nodes)\<close>.
\<close>

datatype outcome =
    Untouched
  | Removed
  | ReplacedWith stmt
  | ReplacedWithMultiple "stmt list"

text \<open>\<open>handleLabeledStatement(babel, path, opts)\<close>: the outcome and the options as normalized.\<close>

definition handleLabeledStatement ::
  "PluginParams \<Rightarrow> process \<Rightarrow> NodePath \<Rightarrow> PluginOptions \<Rightarrow> error + (outcome \<times> PluginOptions)" where
  "handleLabeledStatement babel p path opts0 =
     (let opts = normalizeOpts babel opts0 in
      if aliases opts = None then Inl TypeError
      else if \<not> has_alias opts (label path) then Inr (Untouched, opts)
      else (let metadata = collectMetadata p path opts in
            if shouldStrip p (label path) metadata opts then Inr (Removed, opts)
            else (case traverse_stmt (replacementFor opts (label path) metadata) (body path) of
                    Inl err \<Rightarrow> Inl err
                  | Inr (BlockStatement ss) \<Rightarrow> Inr (ReplacedWithMultiple ss, opts)
                  | Inr s \<Rightarrow> Inr (ReplacedWith s, opts))))"

text \<open>The statements that stand in the parent where the labeled statement stood.\<close>

fun contributed :: "NodePath \<Rightarrow> outcome \<Rightarrow> stmt list" where
  "contributed path Untouched = [LabeledStatement (label path) (body path)]"
| "contributed path Removed = []"
| "contributed path (ReplacedWith s) = [s]"
| "contributed path (ReplacedWithMultiple ss) = ss"


section \<open>The macro\<close>

text \<open>
  The alias table of \<open>macro\<close>. \<open>references\<close> is the list of the imported names that are
  referenced (the keys of the object); \<open>warningLabels\<close> defaults to \<open>['warn']\<close> when the
  configuration has none. The table is built by assigning the names one after the other.
\<close>

datatype warning_labels = WarningLabelsAbsent | WarningLabelsNull | WarningLabels "string list"

definition macroLogLevel :: "warning_labels \<Rightarrow> string \<Rightarrow> string" where
  "macroLogLevel warningLabels key =
     (case (case warningLabels of WarningLabelsAbsent \<Rightarrow> WarningLabels [''warn''] | w \<Rightarrow> w) of
        WarningLabels ws \<Rightarrow> if key \<in> set ws then ''warn'' else ''log''
      | _ \<Rightarrow> ''log'')"

fun assign :: "(string \<times> 'v) list \<Rightarrow> string \<Rightarrow> 'v \<Rightarrow> (string \<times> 'v) list" where
  "assign [] k v = [(k, v)]"
| "assign ((k', v') # m) k v = (if k' = k then (k, v) # m else (k', v') # assign m k v)"

definition macroAliases ::
  "PluginParams \<Rightarrow> (string \<times> alias_value) list option \<Rightarrow> warning_labels \<Rightarrow> string list
     \<Rightarrow> (string \<times> alias_value) list option" where
  "macroAliases babel configured warningLabels references =
     (let refNames = filter (\<lambda>ref. ref \<noteq> ''default'') references in
      if length refNames > 0 then
        Some (foldl (\<lambda>m key. assign m key (AliasFunction (getLogFunction babel (macroLogLevel warningLabels key))))
                [] refNames)
      else configured)"

definition macroOpts ::
  "PluginParams \<Rightarrow> (string \<times> alias_value) list option \<Rightarrow> strip_config \<Rightarrow> warning_labels \<Rightarrow> string list
     \<Rightarrow> PluginOptions" where
  "macroOpts babel configured strp warningLabels references =
     \<lparr>aliases = macroAliases babel configured warningLabels references,
      strip = strp,
      normalized = False\<rparr>"


section \<open>The specification's terms\<close>

text \<open>
  The strip decision as the specification words it. An override entry keeps a statement
  when it is a case-insensitive substring of the context, a substring of the lower-cased
  file name, or equal to the lower-cased label name.
\<close>

definition keptByContext :: "process \<Rightarrow> Metadata \<Rightarrow> bool" where
  "keptByContext p metadata =
     (\<exists>pc \<in> set (PRESERVE_CONTEXTS p). sublist (toLowerCase pc) (toLowerCase (md_context metadata)))"

definition keptByFile :: "process \<Rightarrow> Metadata \<Rightarrow> bool" where
  "keptByFile p metadata =
     (\<exists>pf \<in> set (PRESERVE_FILES p). sublist pf (toLowerCase (md_filename metadata)))"

definition keptByLevel :: "process \<Rightarrow> string \<Rightarrow> bool" where
  "keptByLevel p name = (\<exists>pl \<in> set (PRESERVE_LEVELS p). pl = toLowerCase name)"

text \<open>
  The configuration asks for stripping: it is \<open>true\<close>, or the name of the current
  environment, or maps that name to \<open>true\<close>. The process without its three overrides.
\<close>

definition configuredToStrip :: "process \<Rightarrow> strip_config \<Rightarrow> bool" where
  "configuredToStrip p c =
     (case c of
        StripAbsent \<Rightarrow> False
      | StripBool b \<Rightarrow> b
      | StripString s \<Rightarrow> s \<noteq> [] \<and> NODE_ENV p = Some s
      | StripMap m \<Rightarrow> map_of m (property_key (NODE_ENV p)) = Some True)"

definition withoutOverrides :: "process \<Rightarrow> process" where
  "withoutOverrides p = p\<lparr>TRACE_CONTEXT := None, TRACE_FILE := None, TRACE_LEVEL := None\<rparr>"

text \<open>A name between two slashes of a path: not empty, and without a slash.\<close>

definition isComponent :: "string \<Rightarrow> bool" where
  "isComponent c = (c \<noteq> [] \<and> \<not> list_ex isSlash c)"

text \<open>
  The default renderer builds its call from the source text
  \<open>console.LOGLEVEL(PREFIX, CONTENT)\<close>. The host's template, given that text and values for
  the three placeholders, returns the statement of that call with the placeholders
  replaced.
\<close>

definition templateInstantiates :: "PluginParams \<Rightarrow> bool" where
  "templateInstantiates babel =
     (\<forall>l p c. template babel ''console.LOGLEVEL(PREFIX, CONTENT)''
                 [(''LOGLEVEL'', l), (''PREFIX'', p), (''CONTENT'', c)]
               = StmtNode (ExpressionStatement False
                   (CallExpression (MemberExpression (Identifier ''console'') l) [p, c])))"

text \<open>
  The display prefix in the specification's words: the context, a colon, and two spaces for
  each level of indent. A call of the console function of a level, and the payloads that
  are sequences.
\<close>

definition displayPrefix :: "Metadata \<Rightarrow> string" where
  "displayPrefix metadata =
     md_context metadata @ '':'' @ concat (replicate (md_indent metadata) ''  '')"

definition consoleCall :: "string \<Rightarrow> expr list \<Rightarrow> node" where
  "consoleCall level args =
     ExprNode (CallExpression (MemberExpression (Identifier ''console'') (Identifier level)) args)"

definition isSequence :: "expr \<Rightarrow> bool" where
  "isSequence e = (case e of SequenceExpression es \<Rightarrow> True | _ \<Rightarrow> False)"

text \<open>
  The default alias table; the aliases that are functions; the warning labels of the macro
  with their default, and the named imports it takes its aliases from.
\<close>

definition defaultTable :: "PluginParams \<Rightarrow> (string \<times> alias_value) list" where
  "defaultTable babel =
     [(''log'', AliasFunction (getLogFunction babel ''log'')),
      (''trace'', AliasFunction (getLogFunction babel ''log'')),
      (''warn'', AliasFunction (getLogFunction babel ''warn''))]"

definition isAliasFunction :: "alias_value \<Rightarrow> bool" where
  "isAliasFunction a = (case a of AliasFunction f \<Rightarrow> True | AliasString s \<Rightarrow> False)"

definition effectiveWarningLabels :: "warning_labels \<Rightarrow> string list" where
  "effectiveWarningLabels w =
     (case w of WarningLabelsAbsent \<Rightarrow> [''warn''] | WarningLabelsNull \<Rightarrow> [] | WarningLabels ws \<Rightarrow> ws)"

definition namedReferences :: "string list \<Rightarrow> string list" where
  "namedReferences references = filter (\<lambda>ref. ref \<noteq> ''default'') references"

text \<open>
  The nearest enclosing scope of a statement: the first of its ancestors that is a class
  method, a class declaration, a function or the program.
\<close>

fun isScope :: "ancestor \<Rightarrow> bool" where
  "isScope (ClassMethodPath key b) = True"
| "isScope (ClassDeclarationPath ident line) = True"
| "isScope (FunctionPath ident line b) = True"
| "isScope ProgramPath = True"
| "isScope item = False"

definition nearestScope :: "NodePath \<Rightarrow> ancestor option" where
  "nearestScope path = find isScope (ancestry path)"

definition isLabeledStatement :: "stmt \<Rightarrow> bool" where
  "isLabeledStatement s = (case s of LabeledStatement name b \<Rightarrow> True | _ \<Rightarrow> False)"

text \<open>The two flags of the start message.\<close>

definition startFlags :: "Metadata \<Rightarrow> bool \<times> bool" where
  "startFlags metadata = (md_hasStartMessage metadata, md_isStartMessage metadata)"

text \<open>
  A label occurs in a tree, at any depth. JavaScript does not allow a label to be declared
  again inside the statement it labels, unless a function lies between the two:
  \<open>nestedLabel\<close> looks for the label in a statement without entering functions, classes or
  expressions.
\<close>

fun hasLabel_expr :: "string \<Rightarrow> expr \<Rightarrow> bool"
  and hasLabel_exprs :: "string \<Rightarrow> expr list \<Rightarrow> bool"
  and hasLabel_property :: "string \<Rightarrow> property \<Rightarrow> bool"
  and hasLabel_properties :: "string \<Rightarrow> property list \<Rightarrow> bool"
  and hasLabel_member :: "string \<Rightarrow> member \<Rightarrow> bool"
  and hasLabel_members :: "string \<Rightarrow> member list \<Rightarrow> bool"
  and hasLabel_stmt :: "string \<Rightarrow> stmt \<Rightarrow> bool"
  and hasLabel_stmts :: "string \<Rightarrow> stmt list \<Rightarrow> bool"
where
  "hasLabel_expr l (Identifier n) = False"
| "hasLabel_expr l (StringLiteral s) = False"
| "hasLabel_expr l (NumericLiteral n) = False"
| "hasLabel_expr l (BooleanLiteral b) = False"
| "hasLabel_expr l NullLiteral = False"
| "hasLabel_expr l (SequenceExpression es) = hasLabel_exprs l es"
| "hasLabel_expr l (CallExpression f as) = (hasLabel_expr l f \<or> hasLabel_exprs l as)"
| "hasLabel_expr l (MemberExpression a b) = (hasLabel_expr l a \<or> hasLabel_expr l b)"
| "hasLabel_expr l (BinaryExpression opr a b) = (hasLabel_expr l a \<or> hasLabel_expr l b)"
| "hasLabel_expr l (ObjectExpression ps) = hasLabel_properties l ps"
| "hasLabel_expr l (AssignmentExpression opr a b) = (hasLabel_expr l a \<or> hasLabel_expr l b)"
| "hasLabel_expr l (UpdateExpression opr pre a) = hasLabel_expr l a"
| "hasLabel_expr l (YieldExpression a) = (case a of None \<Rightarrow> False | Some e \<Rightarrow> hasLabel_expr l e)"
| "hasLabel_expr l (FunctionExpression n ps b) = hasLabel_stmts l b"
| "hasLabel_expr l (ArrowFunctionExpression ps b) = hasLabel_stmts l b"
| "hasLabel_expr l (ClassExpression n ms) = hasLabel_members l ms"
| "hasLabel_exprs l [] = False"
| "hasLabel_exprs l (e # es) = (hasLabel_expr l e \<or> hasLabel_exprs l es)"
| "hasLabel_property l (ObjectProperty k v) = hasLabel_expr l v"
| "hasLabel_properties l [] = False"
| "hasLabel_properties l (p # ps) = (hasLabel_property l p \<or> hasLabel_properties l ps)"
| "hasLabel_member l (ClassMethod k ps b) = hasLabel_stmts l b"
| "hasLabel_member l (ClassProperty k v) = (case v of None \<Rightarrow> False | Some e \<Rightarrow> hasLabel_expr l e)"
| "hasLabel_members l [] = False"
| "hasLabel_members l (m # ms) = (hasLabel_member l m \<or> hasLabel_members l ms)"
| "hasLabel_stmt l (ExpressionStatement h e) = hasLabel_expr l e"
| "hasLabel_stmt l (BlockStatement ss) = hasLabel_stmts l ss"
| "hasLabel_stmt l (LabeledStatement n s) = (n = l \<or> hasLabel_stmt l s)"
| "hasLabel_stmt l (IfStatement c t a) =
     (hasLabel_expr l c \<or> hasLabel_stmt l t \<or> (case a of None \<Rightarrow> False | Some s \<Rightarrow> hasLabel_stmt l s))"
| "hasLabel_stmt l (ReturnStatement a) = (case a of None \<Rightarrow> False | Some e \<Rightarrow> hasLabel_expr l e)"
| "hasLabel_stmt l (VariableDeclaration kind n init) =
     (case init of None \<Rightarrow> False | Some e \<Rightarrow> hasLabel_expr l e)"
| "hasLabel_stmt l (FunctionDeclaration n ps b) = hasLabel_stmts l b"
| "hasLabel_stmt l (ClassDeclaration n ms) = hasLabel_members l ms"
| "hasLabel_stmt l EmptyStatement = False"
| "hasLabel_stmts l [] = False"
| "hasLabel_stmts l (s # ss) = (hasLabel_stmt l s \<or> hasLabel_stmts l ss)"

fun nestedLabel :: "string \<Rightarrow> stmt \<Rightarrow> bool"
  and nestedLabels :: "string \<Rightarrow> stmt list \<Rightarrow> bool"
where
  "nestedLabel l (BlockStatement ss) = nestedLabels l ss"
| "nestedLabel l (LabeledStatement n s) = (n = l \<or> nestedLabel l s)"
| "nestedLabel l (IfStatement c t a) =
     (nestedLabel l t \<or> (case a of None \<Rightarrow> False | Some s \<Rightarrow> nestedLabel l s))"
| "nestedLabel l (ExpressionStatement h e) = False"
| "nestedLabel l (ReturnStatement a) = False"
| "nestedLabel l (VariableDeclaration kind n init) = False"
| "nestedLabel l (FunctionDeclaration n ps b) = False"
| "nestedLabel l (ClassDeclaration n ms) = False"
| "nestedLabel l EmptyStatement = False"
| "nestedLabels l [] = False"
| "nestedLabels l (s # ss) = (nestedLabel l s \<or> nestedLabels l ss)"

text \<open>
  A statement holds one of the constructs the first visitor throws at: a variable
  declaration, a function, an assignment, an update, a yield or a return, outside the
  functions it holds.
\<close>

fun sideEffect_stmt :: "stmt \<Rightarrow> bool"
  and sideEffect_stmts :: "stmt list \<Rightarrow> bool"
where
  "sideEffect_stmt (ExpressionStatement h e) = sideEffect_expr e"
| "sideEffect_stmt (BlockStatement ss) = sideEffect_stmts ss"
| "sideEffect_stmt (LabeledStatement n s) = sideEffect_stmt s"
| "sideEffect_stmt (IfStatement c t a) =
     (sideEffect_expr c \<or> sideEffect_stmt t \<or> (case a of None \<Rightarrow> False | Some s \<Rightarrow> sideEffect_stmt s))"
| "sideEffect_stmt (ReturnStatement a) = True"
| "sideEffect_stmt (VariableDeclaration kind n init) = True"
| "sideEffect_stmt (FunctionDeclaration n ps b) = True"
| "sideEffect_stmt (ClassDeclaration n ms) = sideEffect_members ms"
| "sideEffect_stmt EmptyStatement = False"
| "sideEffect_stmts [] = False"
| "sideEffect_stmts (s # ss) = (sideEffect_stmt s \<or> sideEffect_stmts ss)"

text \<open>
  The rewriting in the specification's terms: every expression statement that is not
  marked, at any depth below the statement and outside expressions, becomes a marked
  statement of what \<open>g\<close> makes of its expression; nothing else changes.
\<close>

fun rewrite_stmt :: "(expr \<Rightarrow> expr) \<Rightarrow> stmt \<Rightarrow> stmt"
  and rewrite_stmts :: "(expr \<Rightarrow> expr) \<Rightarrow> stmt list \<Rightarrow> stmt list"
where
  "rewrite_stmt g (ExpressionStatement h e) =
     (if h then ExpressionStatement h e else ExpressionStatement True (g e))"
| "rewrite_stmt g (BlockStatement ss) = BlockStatement (rewrite_stmts g ss)"
| "rewrite_stmt g (LabeledStatement n s) = LabeledStatement n (rewrite_stmt g s)"
| "rewrite_stmt g (IfStatement c t a) =
     IfStatement c (rewrite_stmt g t) (case a of None \<Rightarrow> None | Some s \<Rightarrow> Some (rewrite_stmt g s))"
| "rewrite_stmt g (ReturnStatement a) = ReturnStatement a"
| "rewrite_stmt g (VariableDeclaration kind n init) = VariableDeclaration kind n init"
| "rewrite_stmt g (FunctionDeclaration n ps b) = FunctionDeclaration n ps b"
| "rewrite_stmt g (ClassDeclaration n ms) = ClassDeclaration n ms"
| "rewrite_stmt g EmptyStatement = EmptyStatement"
| "rewrite_stmts g [] = []"
| "rewrite_stmts g (s # ss) = rewrite_stmt g s # rewrite_stmts g ss"

text \<open>The expressions of the statements that get rewritten.\<close>

fun payloads :: "stmt \<Rightarrow> expr list"
  and payloads_list :: "stmt list \<Rightarrow> expr list"
where
  "payloads (ExpressionStatement h e) = (if h then [] else [e])"
| "payloads (BlockStatement ss) = payloads_list ss"
| "payloads (LabeledStatement n s) = payloads s"
| "payloads (IfStatement c t a) = payloads t @ (case a of None \<Rightarrow> [] | Some s \<Rightarrow> payloads s)"
| "payloads (ReturnStatement a) = []"
| "payloads (VariableDeclaration kind n init) = []"
| "payloads (FunctionDeclaration n ps b) = []"
| "payloads (ClassDeclaration n ms) = []"
| "payloads EmptyStatement = []"
| "payloads_list [] = []"
| "payloads_list (s # ss) = payloads s @ payloads_list ss"

text \<open>
  What a renderer makes of an expression, when it returns an expression. A renderer that
  holds the payload returns an expression with a side effect whenever the payload has one;
  a renderer that adds nothing returns an expression without side effect whenever the
  payload has none. The default renderer does both.
\<close>

definition rendered :: "LogFunction \<Rightarrow> Metadata \<Rightarrow> expr \<Rightarrow> expr" where
  "rendered f metadata e =
     (case f (buildMessage metadata e) metadata of ExprNode r \<Rightarrow> r | StmtNode s \<Rightarrow> e)"

definition embedsPayload :: "LogFunction \<Rightarrow> bool" where
  "embedsPayload f =
     (\<forall>message metadata. \<exists>r. f message metadata = ExprNode r \<and>
        (sideEffect_expr (msg_content message) \<longrightarrow> sideEffect_expr r))"

definition addsNoEffect :: "LogFunction \<Rightarrow> bool" where
  "addsNoEffect f =
     (\<forall>message metadata. \<exists>r. f message metadata = ExprNode r \<and>
        (sideEffect_expr r \<longrightarrow> sideEffect_expr (msg_content message)))"

text \<open>
  For a labeled statement under given options: the strip decision, the renderer of its
  label, its metadata, the number of statements its body holds, and the outcome that puts a
  statement in its place (the statements of a block, or the statement itself).
\<close>

definition stripDecision :: "PluginParams \<Rightarrow> process \<Rightarrow> NodePath \<Rightarrow> PluginOptions \<Rightarrow> bool" where
  "stripDecision babel p path opts =
     (let opts' = normalizeOpts babel opts
      in shouldStrip p (label path) (collectMetadata p path opts') opts')"

definition rendererOf :: "PluginParams \<Rightarrow> PluginOptions \<Rightarrow> string \<Rightarrow> LogFunction option" where
  "rendererOf babel opts name =
     (case aliases (normalizeOpts babel opts) of
        None \<Rightarrow> None
      | Some al \<Rightarrow> (case map_of al name of Some (AliasFunction f) \<Rightarrow> Some f | _ \<Rightarrow> None))"

definition metadataOf :: "PluginParams \<Rightarrow> process \<Rightarrow> NodePath \<Rightarrow> PluginOptions \<Rightarrow> Metadata" where
  "metadataOf babel p path opts = collectMetadata p path (normalizeOpts babel opts)"

definition bodyLength :: "stmt \<Rightarrow> nat" where
  "bodyLength s = (case s of BlockStatement ss \<Rightarrow> length ss | _ \<Rightarrow> 1)"

definition unwrapped :: "stmt \<Rightarrow> outcome" where
  "unwrapped s = (case s of BlockStatement ss \<Rightarrow> ReplacedWithMultiple ss | _ \<Rightarrow> ReplacedWith s)"

text \<open>
  What the label's renderer makes of an expression (the expression itself where the
  renderer gives none), and the body rewritten with it.
\<close>

definition replaced :: "PluginParams \<Rightarrow> process \<Rightarrow> NodePath \<Rightarrow> PluginOptions \<Rightarrow> expr \<Rightarrow> expr" where
  "replaced babel p path opts e =
     (case replacementFor (normalizeOpts babel opts) (label path) (metadataOf babel p path opts) e of
        Inr r \<Rightarrow> r
      | Inl err \<Rightarrow> e)"

definition rewrittenBody :: "PluginParams \<Rightarrow> process \<Rightarrow> NodePath \<Rightarrow> PluginOptions \<Rightarrow> stmt" where
  "rewrittenBody babel p path opts = rewrite_stmt (replaced babel p path opts) (body path)"

section \<open>Example inputs\<close>

text \<open>
  A host for the examples: its template knows the call template of the default renderer and
  one alias template that does not mention the payload.
\<close>

fun substitute :: "(string \<times> expr) list \<Rightarrow> expr \<Rightarrow> expr" where
  "substitute ids (Identifier n) = (case map_of ids n of Some v \<Rightarrow> v | None \<Rightarrow> Identifier n)"
| "substitute ids e = e"

definition exampleBabel :: PluginParams where
  "exampleBabel =
     \<lparr>template = (\<lambda>source ids.
        if source = ''console.LOGLEVEL(PREFIX, CONTENT)'' then
          StmtNode (ExpressionStatement False
            (CallExpression
              (MemberExpression (Identifier ''console'') (substitute ids (Identifier ''LOGLEVEL'')))
              [substitute ids (Identifier ''PREFIX''), substitute ids (Identifier ''CONTENT'')]))
        else if source = ''audit(parentName)'' then
          StmtNode (ExpressionStatement False
            (CallExpression (Identifier ''audit'') [substitute ids (Identifier ''parentName'')]))
        else StmtNode EmptyStatement)\<rparr>"

text \<open>
  Processes: without overrides, with \<open>TRACE_LEVEL=warn\<close>, and with the environment named
  \<open>length\<close>.
\<close>

definition exampleProcess :: process where
  "exampleProcess =
     \<lparr>NODE_ENV = None, TRACE_CONTEXT = None, TRACE_FILE = None, TRACE_LEVEL = None,
      cwd = ''/home/user/project''\<rparr>"

definition levelWarnProcess :: process where
  "levelWarnProcess =
     \<lparr>NODE_ENV = Some ''production'', TRACE_CONTEXT = None, TRACE_FILE = None,
      TRACE_LEVEL = Some ''warn'', cwd = ''/home/user/project''\<rparr>"

definition lengthProcess :: process where
  "lengthProcess =
     \<lparr>NODE_ENV = Some ''length'', TRACE_CONTEXT = None, TRACE_FILE = None,
      TRACE_LEVEL = None, cwd = ''/home/user/project''\<rparr>"

text \<open>
  Options: none given, \<open>strip: true\<close>, \<open>strip: "production"\<close>, an empty alias object, and
  one alias that is a template text.
\<close>

definition defaultOpts :: PluginOptions where
  "defaultOpts = \<lparr>aliases = None, strip = StripAbsent, normalized = False\<rparr>"

definition stripAll :: PluginOptions where
  "stripAll = \<lparr>aliases = None, strip = StripBool True, normalized = False\<rparr>"

definition stripInProduction :: PluginOptions where
  "stripInProduction = \<lparr>aliases = None, strip = StripString ''production'', normalized = False\<rparr>"

definition emptyAliases :: PluginOptions where
  "emptyAliases = \<lparr>aliases = Some [], strip = StripAbsent, normalized = False\<rparr>"

definition templateAliases :: PluginOptions where
  "templateAliases =
     \<lparr>aliases = Some [(''audit'', AliasString ''audit(parentName)'')],
      strip = StripAbsent, normalized = False\<rparr>"

definition normalizedDefaults :: PluginOptions where
  "normalizedDefaults = normalizeOpts exampleBabel defaultOpts"

text \<open>
  Metadata: of a statement in the function \<open>authenticate\<close> of \<open>src/login.js\<close>, of the same
  at indent 2, and of a statement at the top level of that file.
\<close>

definition exampleMetadata :: Metadata where
  "exampleMetadata =
     \<lparr>md_indent = 0, md_prefix = ''login'', md_parentName = ''authenticate'',
      md_context = ''login:authenticate'', md_hasStartMessage = True, md_isStartMessage = True,
      md_filename = ''/home/user/project/src/login.js'', md_dirname = ''/home/user/project/src'',
      md_basename = ''login'', md_extname = ''.js''\<rparr>"

definition nestedMetadata :: Metadata where
  "nestedMetadata = exampleMetadata\<lparr>md_indent := 2\<rparr>"

definition loginMetadata :: Metadata where
  "loginMetadata =
     \<lparr>md_indent = 0, md_prefix = ''login'', md_parentName = [],
      md_context = ''login:'', md_hasStartMessage = False, md_isStartMessage = False,
      md_filename = ''/home/user/project/src/login.js'', md_dirname = ''/home/user/project/src'',
      md_basename = ''login'', md_extname = ''.js''\<rparr>"

text \<open>
  Paths: a statement at the top level of \<open>src/db/models/index.js\<close>, and statements at the
  top level of \<open>src/login.js\<close>.
\<close>

definition modelsIndexPath :: NodePath where
  "modelsIndexPath =
     \<lparr>label = ''trace'', body = ExpressionStatement False (StringLiteral ''loading''),
      hub_filename = ''src/db/models/index.js'',
      ancestry = [ProgramPath], body_index = None\<rparr>"

definition topLevel :: "string \<Rightarrow> stmt \<Rightarrow> NodePath" where
  "topLevel name b =
     \<lparr>label = name, body = b, hub_filename = ''src/login.js'',
      ancestry = [ProgramPath], body_index = None\<rparr>"

text \<open>
  A function \<open>f\<close> whose body starts with two \<open>trace:\<close> labels, and a function \<open>g\<close> whose body
  starts with a call.
\<close>

definition twoLabels :: "stmt list" where
  "twoLabels =
     [LabeledStatement ''trace'' (ExpressionStatement False (StringLiteral ''first'')),
      LabeledStatement ''trace'' (ExpressionStatement False (StringLiteral ''second'')),
      ReturnStatement (Some (Identifier ''x''))]"

definition labelAt :: "nat \<Rightarrow> NodePath" where
  "labelAt i =
     \<lparr>label = ''trace'',
      body = ExpressionStatement False (StringLiteral (if i = 0 then ''first'' else ''second'')),
      hub_filename = ''src/login.js'',
      ancestry = [BlockStatementPath, FunctionPath (Some ''f'') 3 twoLabels, ProgramPath],
      body_index = Some i\<rparr>"

definition callFirst :: "stmt list" where
  "callFirst =
     [ExpressionStatement False (CallExpression (Identifier ''prepare'') []),
      LabeledStatement ''trace'' (ExpressionStatement False (StringLiteral ''ready''))]"

definition labelAfterCall :: NodePath where
  "labelAfterCall =
     \<lparr>label = ''trace'',
      body = ExpressionStatement False (StringLiteral ''ready''),
      hub_filename = ''src/login.js'',
      ancestry = [BlockStatementPath, FunctionPath (Some ''g'') 9 callFirst, ProgramPath],
      body_index = Some 1\<rparr>"

text \<open>
  The path of the statement at a position of the body of a named function of
  \<open>src/login.js\<close>: its label and body are read off the statement that stands there.
\<close>

fun label_of :: "stmt \<Rightarrow> string" where
  "label_of (LabeledStatement name b) = name"
| "label_of s = []"

fun body_of :: "stmt \<Rightarrow> stmt" where
  "body_of (LabeledStatement name b) = b"
| "body_of s = s"

definition pathAt :: "string \<Rightarrow> stmt list \<Rightarrow> nat \<Rightarrow> NodePath" where
  "pathAt name ss i =
     \<lparr>label = label_of (ss ! i), body = body_of (ss ! i),
      hub_filename = ''src/login.js'',
      ancestry = [BlockStatementPath, FunctionPath (Some name) 3 ss, ProgramPath],
      body_index = Some i\<rparr>"

text \<open>
  Three function bodies: \<open>trace: 'a'; prepare(); trace: 'b'\<close>, then
  \<open>trace: if (verbose) 'detail'; trace: 'second'\<close>, then \<open>trace: 'a'; warn: 'b'\<close>.
\<close>

definition callBetween :: "stmt list" where
  "callBetween =
     [LabeledStatement ''trace'' (ExpressionStatement False (StringLiteral ''a'')),
      ExpressionStatement False (CallExpression (Identifier ''prepare'') []),
      LabeledStatement ''trace'' (ExpressionStatement False (StringLiteral ''b''))]"

definition ifFirst :: "stmt list" where
  "ifFirst =
     [LabeledStatement ''trace''
        (IfStatement (Identifier ''verbose'') (ExpressionStatement False (StringLiteral ''detail'')) None),
      LabeledStatement ''trace'' (ExpressionStatement False (StringLiteral ''second''))]"

definition traceThenWarn :: "stmt list" where
  "traceThenWarn =
     [LabeledStatement ''trace'' (ExpressionStatement False (StringLiteral ''a'')),
      LabeledStatement ''warn'' (ExpressionStatement False (StringLiteral ''b''))]"

text \<open>
  Bodies: a block of two messages, an assignment, a block holding a class without members,
  and a message below an \<open>if\<close>. The call \<open>console.log(...)\<close>.
\<close>

definition consoleLog :: "expr list \<Rightarrow> expr" where
  "consoleLog args = CallExpression (MemberExpression (Identifier ''console'') (Identifier ''log'')) args"

text \<open>
  The statement that stands for \<open>trace: if (verbose) 'detail'\<close> in the function \<open>k\<close> once
  the label is rewritten.
\<close>

definition detailLogged :: stmt where
  "detailLogged =
     IfStatement (Identifier ''verbose'')
       (ExpressionStatement True (consoleLog [StringLiteral ''login:k:'', StringLiteral ''detail'']))
       None"

text \<open>
  The body of a scope once the statement of a path at its start has been handled: what the
  outcome put in the statement's place, then the statements that followed it.
\<close>

definition afterFirst :: "NodePath \<Rightarrow> outcome \<Rightarrow> stmt list \<Rightarrow> stmt list" where
  "afterFirst path result ss = contributed path result @ tl ss"

definition twoMessages :: stmt where
  "twoMessages =
     BlockStatement
       [ExpressionStatement False
          (SequenceExpression [StringLiteral ''authenticating user'', Identifier ''username'']),
        ExpressionStatement False (StringLiteral ''done'')]"

definition assignment :: stmt where
  "assignment =
     ExpressionStatement False (AssignmentExpression ''='' (Identifier ''x'') (NumericLiteral 5))"

definition classInBlock :: stmt where
  "classInBlock = BlockStatement [ClassDeclaration ''A'' []]"

definition nestedMessage :: stmt where
  "nestedMessage =
     BlockStatement
       [IfStatement (Identifier ''verbose'') (ExpressionStatement False (StringLiteral ''detail'')) None]"

section \<open>Strings and the environment overrides\<close>

lemma str_includes_sublist: "str_includes s pat \<longleftrightarrow> sublist pat s"
  by (induction s) (auto simp: sublist_Cons_right)

lemma toLowerCase_char_idem: "toLowerCase_char (toLowerCase_char c) = toLowerCase_char c"
  by (auto simp: toLowerCase_char_def split: option.splits if_splits)

lemma toLowerCase_fixed: "\<forall>c \<in> set s. toLowerCase_char c = c \<Longrightarrow> toLowerCase s = s"
  by (simp add: toLowerCase_def map_idI)

lemma trim_subset: "set (trim s) \<subseteq> set s"
proof
  fix c assume "c \<in> set (trim s)"
  then have "c \<in> set (dropWhile isSpace (rev (dropWhile isSpace s)))" by (simp add: trim_def)
  then have "c \<in> set (rev (dropWhile isSpace s))" by (rule set_dropWhileD)
  then have "c \<in> set (dropWhile isSpace s)" by simp
  then show "c \<in> set s" by (rule set_dropWhileD)
qed

lemma toLowerCase_trim: "toLowerCase (trim (toLowerCase s)) = trim (toLowerCase s)"
proof (rule toLowerCase_fixed, rule ballI)
  fix c assume "c \<in> set (trim (toLowerCase s))"
  then have "c \<in> set (toLowerCase s)" using trim_subset by blast
  then show "toLowerCase_char c = c"
    by (auto simp: toLowerCase_def toLowerCase_char_idem)
qed

text \<open>Every override entry is in lower case, so matching it is matching without case.\<close>

lemma normalizeEnv_lower: "e \<in> set (normalizeEnv v) \<Longrightarrow> toLowerCase e = e"
  by (auto simp: normalizeEnv_def toLowerCase_trim split: option.splits if_splits)

lemma normalizeEnv_None: "normalizeEnv None = []"
  by (simp add: normalizeEnv_def)

section \<open>The strip decision\<close>

lemma configured_requested: "configuredToStrip p c \<Longrightarrow> strip_requested p c"
  by (cases c) (auto simp: configuredToStrip_def strip_requested_def)

lemma context_override:
  "list_ex (\<lambda>pc. str_includes (toLowerCase (md_context metadata)) pc) (PRESERVE_CONTEXTS p)
     = keptByContext p metadata"
proof -
  have "\<And>pc. pc \<in> set (PRESERVE_CONTEXTS p) \<Longrightarrow> toLowerCase pc = pc"
    by (simp add: PRESERVE_CONTEXTS_def normalizeEnv_lower)
  then show ?thesis
    by (auto simp: keptByContext_def list_ex_iff str_includes_sublist)
qed

lemma file_override:
  "list_ex (\<lambda>pf. str_includes (toLowerCase (md_filename metadata)) pf) (PRESERVE_FILES p)
     = keptByFile p metadata"
  by (auto simp: keptByFile_def list_ex_iff str_includes_sublist)

lemma level_override:
  "list_ex (\<lambda>pl. toLowerCase name = pl) (PRESERVE_LEVELS p) = keptByLevel p name"
  by (auto simp: keptByLevel_def list_ex_iff)

lemma shouldStrip_unfold:
  "shouldStrip p name metadata opts =
     (strip_requested p (strip opts) \<and>
      \<not> keptByContext p metadata \<and> \<not> keptByFile p metadata \<and> \<not> keptByLevel p name)"
  unfolding shouldStrip_def context_override file_override level_override
  by (auto simp: keptByContext_def keptByFile_def keptByLevel_def)

lemma strip_requested_withoutOverrides:
  "strip_requested (withoutOverrides p) c = strip_requested p c"
  by (cases c) (simp_all add: strip_requested_def withoutOverrides_def)

lemma no_overrides:
  "\<not> keptByContext (withoutOverrides p) metadata"
  "\<not> keptByFile (withoutOverrides p) metadata"
  "\<not> keptByLevel (withoutOverrides p) name"
  by (simp_all add: keptByContext_def keptByFile_def keptByLevel_def withoutOverrides_def
      PRESERVE_CONTEXTS_def PRESERVE_FILES_def PRESERVE_LEVELS_def normalizeEnv_None)

text \<open>
  C3. \<open>shouldStrip\<close> is false whenever the strip option is falsy. When the option is
  \<open>true\<close>, or the name of the current environment, or maps that name to a truthy value,
  \<open>shouldStrip\<close> is true unless an override matches: an entry of the preserved contexts that
  is a case-insensitive substring of the context, or an entry of the preserved files that
  is a substring of the lower-cased file name, or an entry of the preserved levels equal to
  the lower-cased label name. The overrides only ever turn a strip into a keep: what is
  stripped with them is stripped without them.
\<close>

theorem shouldStrip_decision:
  "(\<not> strip_truthy (strip opts) \<longrightarrow> \<not> shouldStrip p name metadata opts) \<and>
   (configuredToStrip p (strip opts) \<longrightarrow>
      shouldStrip p name metadata opts =
        (\<not> (keptByContext p metadata \<or> keptByFile p metadata \<or> keptByLevel p name))) \<and>
   (shouldStrip p name metadata opts \<longrightarrow> shouldStrip (withoutOverrides p) name metadata opts)"
proof (intro conjI impI)
  assume "\<not> strip_truthy (strip opts)"
  then show "\<not> shouldStrip p name metadata opts"
    by (simp add: shouldStrip_def strip_requested_def)
next
  assume "configuredToStrip p (strip opts)"
  then have "strip_requested p (strip opts)" by (rule configured_requested)
  then show "shouldStrip p name metadata opts =
        (\<not> (keptByContext p metadata \<or> keptByFile p metadata \<or> keptByLevel p name))"
    by (simp add: shouldStrip_unfold)
next
  assume "shouldStrip p name metadata opts"
  then have "strip_requested p (strip opts)" by (simp add: shouldStrip_unfold)
  then show "shouldStrip (withoutOverrides p) name metadata opts"
    by (simp add: shouldStrip_unfold strip_requested_withoutOverrides no_overrides)
qed

lemma levelWarn_levels: "PRESERVE_LEVELS levelWarnProcess = [''warn'']"
  by (simp add: PRESERVE_LEVELS_def levelWarnProcess_def normalizeEnv_def trim_def toLowerCase_def
      toLowerCase_char_def isSpace_def)

lemma levelWarn_others:
  "PRESERVE_CONTEXTS levelWarnProcess = []" "PRESERVE_FILES levelWarnProcess = []"
  by (simp_all add: PRESERVE_CONTEXTS_def PRESERVE_FILES_def levelWarnProcess_def normalizeEnv_def)

text \<open>
  With \<open>strip: true\<close> and \<open>TRACE_LEVEL=warn\<close>, a \<open>trace:\<close> label is stripped and a \<open>warn:\<close>
  label is kept; without a strip option nothing is stripped.
\<close>

theorem shouldStrip_decision_witness:
  "shouldStrip levelWarnProcess ''trace'' exampleMetadata stripAll \<and>
   \<not> shouldStrip levelWarnProcess ''warn'' exampleMetadata stripAll \<and>
   \<not> shouldStrip levelWarnProcess ''warn'' exampleMetadata (stripAll\<lparr>strip := StripAbsent\<rparr>) \<and>
   shouldStrip (withoutOverrides levelWarnProcess) ''trace'' exampleMetadata stripAll"
  using shouldStrip_decision [of stripAll levelWarnProcess "''trace''" exampleMetadata]
    shouldStrip_decision [of stripAll levelWarnProcess "''warn''" exampleMetadata]
    shouldStrip_decision [of "stripAll\<lparr>strip := StripAbsent\<rparr>" levelWarnProcess "''warn''" exampleMetadata]
  by (simp add: configuredToStrip_def stripAll_def keptByContext_def keptByFile_def keptByLevel_def
      levelWarn_levels levelWarn_others toLowerCase_def toLowerCase_char_def)

text \<open>
  C4. A strip option that is a string should strip exactly when it equals the name of the
  current environment. The condition of \<open>shouldStrip\<close> also reads the property of the
  string that the environment name denotes: with the option \<open>production\<close> and the
  environment named \<open>length\<close> the two differ, and the label is stripped.
\<close>

theorem string_strip_reads_property:
  "NODE_ENV lengthProcess \<noteq> Some ''production'' \<and>
   shouldStrip lengthProcess ''trace'' exampleMetadata stripInProduction"
  by (simp add: shouldStrip_def strip_requested_def lengthProcess_def stripInProduction_def
      PRESERVE_CONTEXTS_def PRESERVE_FILES_def PRESERVE_LEVELS_def normalizeEnv_def property_key_def)

section \<open>The file-derived prefix\<close>

text \<open>
  The name of a directory is the last component of its path, and its parent is what
  precedes the slash before it.
\<close>

lemma strip_trailing_component:
  assumes "isComponent c"
  shows "strip_trailing_slashes (x @ c) = x @ c"
proof -
  obtain c' z where c: "c = c' @ [z]" using assms by (metis isComponent_def rev_exhaust)
  then have "\<not> isSlash z" using assms by (simp add: isComponent_def)
  then show ?thesis by (simp add: strip_trailing_slashes_def c)
qed

lemma takeWhile_component:
  assumes "isComponent c"
  shows "takeWhile (\<lambda>ch. \<not> isSlash ch) (rev c @ CHR ''/'' # y) = rev c"
proof -
  have "takeWhile (\<lambda>ch. \<not> isSlash ch) (rev c @ CHR ''/'' # y)
          = rev c @ takeWhile (\<lambda>ch. \<not> isSlash ch) (CHR ''/'' # y)"
    by (rule takeWhile_append2) (use assms in \<open>auto simp: isComponent_def list_ex_iff\<close>)
  then show ?thesis by (simp add: isSlash_def)
qed

lemma last_component_append:
  assumes "isComponent c"
  shows "last_component (x @ CHR ''/'' # c) = c"
proof -
  have "strip_trailing_slashes (x @ CHR ''/'' # c) = x @ CHR ''/'' # c"
    using strip_trailing_component [OF assms, of "x @ ''/''"] by simp
  then show ?thesis
    using takeWhile_component [OF assms, of "rev x"] by (simp add: last_component_def)
qed

lemma basename_append: "isComponent c \<Longrightarrow> fspath_basename (x @ CHR ''/'' # c) = c"
  by (simp add: fspath_basename_def last_component_append)

lemma dirname_append:
  assumes "isComponent c" and "x \<noteq> []" and "x \<noteq> ''/''"
  shows "fspath_dirname (x @ CHR ''/'' # c) = x"
proof -
  obtain a x' where x: "x = a # x'" using assms(2) by (cases x) auto
  have t: "strip_trailing_slashes (tl (x @ CHR ''/'' # c)) = x' @ CHR ''/'' # c"
    using strip_trailing_component [OF assms(1), of "x' @ ''/''"] by (simp add: x)
  have k: "takeWhile (\<lambda>ch. \<not> isSlash ch) (rev (x' @ CHR ''/'' # c)) = rev c"
    using takeWhile_component [OF assms(1), of "rev x'"] by simp
  have e: "length (x' @ CHR ''/'' # c) - length (rev c) = length x" by (simp add: x)
  have ex: "list_ex isSlash (x' @ CHR ''/'' # c)" by (simp add: isSlash_def)
  have "\<not> (isSlash a \<and> length x = 1)" using assms(3) by (auto simp: x isSlash_def)
  then show ?thesis
    unfolding fspath_dirname_def Let_def t k e
    using ex by (simp add: x)
qed

lemma prefix_of_path:
  assumes "isComponent g" and "isComponent d" and "isComponent f"
  shows "generatePrefix (fspath_dirname (dir @ ''/'' @ g @ ''/'' @ d @ ''/'' @ f)) basename =
           (if basename \<noteq> ''index'' then basename
            else if d \<noteq> ''src'' \<and> d \<noteq> ''lib'' then d else g)"
proof -
  let ?grand = "dir @ CHR ''/'' # g"
  let ?parent = "?grand @ CHR ''/'' # d"
  have g0: "g \<noteq> []" using assms(1) by (simp add: isComponent_def)
  have n1: "?parent \<noteq> []" "?parent \<noteq> ''/''" by (simp_all add: append_eq_Cons_conv)
  have n2: "?grand \<noteq> []" "?grand \<noteq> ''/''" using g0 by (simp_all add: append_eq_Cons_conv)
  have 1: "fspath_dirname (?parent @ CHR ''/'' # f) = ?parent"
    by (rule dirname_append [OF assms(3) n1])
  have 2: "fspath_basename ?parent = d" by (rule basename_append [OF assms(2)])
  have 3: "fspath_dirname ?parent = ?grand" by (rule dirname_append [OF assms(2) n2])
  have 4: "fspath_basename ?grand = g" by (rule basename_append [OF assms(1)])
  have 5: "generatePrefix ?parent basename =
           (if basename \<noteq> ''index'' then basename
            else if d \<noteq> ''src'' \<and> d \<noteq> ''lib'' then d else g)"
    unfolding generatePrefix_def Let_def 2 3 4 by simp
  have "dir @ ''/'' @ g @ ''/'' @ d @ ''/'' @ f = ?parent @ CHR ''/'' # f" by simp
  then show ?thesis using 1 5 by simp
qed

text \<open>The file \<open>src/db/models/index.js\<close> of the project.\<close>

lemma example_filename:
  "fspath_resolve ''/home/user/project'' ''src/db/models/index.js'' = ''/home/user/project/src/db/models/index.js''"
  by (simp add: fspath_resolve_def isSlash_def)

lemma example_dirname:
  "fspath_dirname ''/home/user/project/src/db/models/index.js'' = ''/home/user/project/src/db/models''"
  by (simp add: fspath_dirname_def isSlash_def strip_trailing_slashes_def Let_def)

lemma example_extname:
  "fspath_extname ''/home/user/project/src/db/models/index.js'' = ''.js''"
  by (simp add: fspath_extname_def last_component_def isSlash_def strip_trailing_slashes_def Let_def)

lemma example_basename:
  "fspath_basename_ext ''/home/user/project/src/db/models/index.js'' ''.js'' = ''index''"
  by (simp add: fspath_basename_ext_def last_component_def isSlash_def strip_trailing_slashes_def Let_def)

lemma example_parent:
  "fspath_basename ''/home/user/project/src/db/models'' = ''models''"
  by (simp add: fspath_basename_def last_component_def isSlash_def strip_trailing_slashes_def)

lemma modelsIndex_metadata:
  "md_filename (collectMetadata exampleProcess modelsIndexPath opts) = ''/home/user/project/src/db/models/index.js''"
  "md_dirname (collectMetadata exampleProcess modelsIndexPath opts) = ''/home/user/project/src/db/models''"
  "md_basename (collectMetadata exampleProcess modelsIndexPath opts) = ''index''"
  by (simp_all add: collectMetadata_def Let_def exampleProcess_def modelsIndexPath_def
      example_filename example_dirname example_extname example_basename)

text \<open>
  C5. The file-derived prefix: if the basename of the file (without extension) is not
  \<open>index\<close>, the prefix is that basename; otherwise, if the name of the parent directory is
  neither \<open>src\<close> nor \<open>lib\<close>, the prefix is that name; otherwise it is the name of the
  grandparent directory. The metadata's prefix is computed so from the directory and the
  basename of the resolved file name: for a file \<open>f\<close> in a directory \<open>d\<close> in a directory
  \<open>g\<close>, the parent's name is \<open>d\<close> and the grandparent's is \<open>g\<close>. For the file
  \<open>src/db/models/index.js\<close> the prefix is \<open>models\<close>.
\<close>

theorem generatePrefix_rule:
  "(basename \<noteq> ''index'' \<longrightarrow> generatePrefix dirname basename = basename) \<and>
   (basename = ''index'' \<and> fspath_basename dirname \<noteq> ''src'' \<and> fspath_basename dirname \<noteq> ''lib'' \<longrightarrow>
      generatePrefix dirname basename = fspath_basename dirname) \<and>
   (basename = ''index'' \<and> (fspath_basename dirname = ''src'' \<or> fspath_basename dirname = ''lib'') \<longrightarrow>
      generatePrefix dirname basename = fspath_basename (fspath_dirname dirname)) \<and>
   md_prefix (collectMetadata p path opts) =
      generatePrefix (md_dirname (collectMetadata p path opts)) (md_basename (collectMetadata p path opts)) \<and>
   md_dirname (collectMetadata p path opts) = fspath_dirname (md_filename (collectMetadata p path opts)) \<and>
   md_basename (collectMetadata p path opts) =
      fspath_basename_ext (md_filename (collectMetadata p path opts))
        (fspath_extname (md_filename (collectMetadata p path opts))) \<and>
   (isComponent g \<and> isComponent d \<and> isComponent f \<and>
    md_filename (collectMetadata p path opts) = dir @ ''/'' @ g @ ''/'' @ d @ ''/'' @ f \<longrightarrow>
      md_prefix (collectMetadata p path opts) =
        (if md_basename (collectMetadata p path opts) \<noteq> ''index''
         then md_basename (collectMetadata p path opts)
         else if d \<noteq> ''src'' \<and> d \<noteq> ''lib'' then d else g)) \<and>
   md_prefix (collectMetadata exampleProcess modelsIndexPath opts) = ''models''"
proof -
  let ?m = "collectMetadata p path opts"
  have shape: "md_prefix ?m = generatePrefix (fspath_dirname (md_filename ?m)) (md_basename ?m)"
    by (simp add: collectMetadata_def Let_def)
  have structural: "md_prefix ?m =
        (if md_basename ?m \<noteq> ''index'' then md_basename ?m
         else if d \<noteq> ''src'' \<and> d \<noteq> ''lib'' then d else g)"
    if "isComponent g \<and> isComponent d \<and> isComponent f \<and>
        md_filename ?m = dir @ ''/'' @ g @ ''/'' @ d @ ''/'' @ f"
    using that shape prefix_of_path [of g d f dir "md_basename ?m"] by simp
  have example: "md_prefix (collectMetadata exampleProcess modelsIndexPath opts) = ''models''"
    by (simp add: collectMetadata_def Let_def exampleProcess_def modelsIndexPath_def
      example_filename example_dirname example_extname example_basename generatePrefix_def example_parent)
  have rest: "md_prefix ?m = generatePrefix (md_dirname ?m) (md_basename ?m) \<and>
      md_dirname ?m = fspath_dirname (md_filename ?m) \<and>
      md_basename ?m = fspath_basename_ext (md_filename ?m) (fspath_extname (md_filename ?m))"
    by (simp add: collectMetadata_def Let_def)
  have rule: "(basename \<noteq> ''index'' \<longrightarrow> generatePrefix dirname basename = basename) \<and>
   (basename = ''index'' \<and> fspath_basename dirname \<noteq> ''src'' \<and> fspath_basename dirname \<noteq> ''lib'' \<longrightarrow>
      generatePrefix dirname basename = fspath_basename dirname) \<and>
   (basename = ''index'' \<and> (fspath_basename dirname = ''src'' \<or> fspath_basename dirname = ''lib'') \<longrightarrow>
      generatePrefix dirname basename = fspath_basename (fspath_dirname dirname))"
    by (auto simp: generatePrefix_def Let_def)
  from rule rest structural example show ?thesis by blast
qed

text \<open>The three cases on concrete paths, and the file \<open>src/db/models/index.js\<close>.\<close>

theorem generatePrefix_rule_witness:
  "generatePrefix ''/home/user/project/src'' ''login'' = ''login'' \<and>
   generatePrefix ''/home/user/project/src/db/models'' ''index'' = ''models'' \<and>
   generatePrefix ''/home/user/project/src'' ''index'' = ''project'' \<and>
   md_prefix (collectMetadata exampleProcess modelsIndexPath defaultOpts) = ''models''"
proof -
  have 1: "generatePrefix ''/home/user/project/src'' ''login'' = ''login''"
    using generatePrefix_rule [where basename = "''login''" and dirname = "''/home/user/project/src''"]
    by simp
  have "fspath_basename ''/home/user/project/src/db/models'' = ''models''"
    by (rule example_parent)
  then have 2: "generatePrefix ''/home/user/project/src/db/models'' ''index'' = ''models''"
    using generatePrefix_rule [where basename = "''index''" and dirname = "''/home/user/project/src/db/models''"]
    by simp
  have "fspath_basename ''/home/user/project/src'' = ''src''"
    and "fspath_basename (fspath_dirname ''/home/user/project/src'') = ''project''"
    by (simp_all add: fspath_basename_def fspath_dirname_def last_component_def isSlash_def
        strip_trailing_slashes_def Let_def)
  then have 3: "generatePrefix ''/home/user/project/src'' ''index'' = ''project''"
    using generatePrefix_rule [where basename = "''index''" and dirname = "''/home/user/project/src''"]
    by simp
  let ?m = "collectMetadata exampleProcess modelsIndexPath defaultOpts"
  have c: "isComponent ''db'' \<and> isComponent ''models'' \<and> isComponent ''index.js''"
    by (simp add: isComponent_def isSlash_def)
  have f: "md_filename ?m = ''/home/user/project/src'' @ ''/'' @ ''db'' @ ''/'' @ ''models'' @ ''/'' @ ''index.js''"
    by (simp add: modelsIndex_metadata)
  have b: "md_basename ?m = ''index''" by (simp add: modelsIndex_metadata)
  have "md_prefix ?m =
          (if md_basename ?m \<noteq> ''index'' then md_basename ?m
           else if ''models'' \<noteq> ''src'' \<and> ''models'' \<noteq> ''lib'' then ''models'' else ''db'')"
    using generatePrefix_rule [where p = exampleProcess and path = modelsIndexPath and opts = defaultOpts
        and g = "''db''" and d = "''models''" and f = "''index.js''" and dir = "''/home/user/project/src''"
        and basename = "''index''" and dirname = "''/home/user/project/src''"]
      c f by blast
  then have 4: "md_prefix ?m = ''models''" using b by simp
  from 1 2 3 4 show ?thesis by blast
qed

section \<open>The default renderer\<close>

lemma join_empty_slots: "join sep ([] # replicate n []) = concat (replicate n sep)"
  by (induction n) simp_all

lemma log_prefix:
  "(if md_indent metadata \<noteq> 0
    then (md_context metadata @ '':'') @ join ''  '' (replicate (md_indent metadata + 1) [])
    else md_context metadata @ '':'') = displayPrefix metadata"
  by (simp add: displayPrefix_def join_empty_slots)

lemma getLogFunction_sequence:
  "msg_content message = SequenceExpression es \<Longrightarrow>
   getLogFunction babel level message metadata = consoleCall level (StringLiteral (displayPrefix metadata) # es)"
  using log_prefix [of metadata]
  by (simp add: getLogFunction_def Let_def consoleCall_def)

lemma getLogFunction_single:
  assumes "templateInstantiates babel" and "\<not> isSequence (msg_content message)"
  shows "getLogFunction babel level message metadata =
           consoleCall level [StringLiteral (displayPrefix metadata), msg_content message]"
proof -
  have t: "expression ''console.LOGLEVEL(PREFIX, CONTENT)'' (template babel)
             [(''LOGLEVEL'', l), (''PREFIX'', q), (''CONTENT'', c)]
           = ExprNode (CallExpression (MemberExpression (Identifier ''console'') l) [q, c])" for l q c
    using assms(1) by (simp add: templateInstantiates_def expression_def)
  show ?thesis
    using assms(2) log_prefix [of metadata]
    by (cases "msg_content message") (simp_all add: getLogFunction_def Let_def consoleCall_def t isSequence_def)
qed

text \<open>
  C9. The default renderer for a level computes the display prefix, the context followed by
  a colon and by two spaces for each level of indent. For a payload that is a sequence of N
  expressions it returns a call of the console function of that level with N + 1 arguments,
  the prefix string and then the expressions in order; for any other payload it returns a
  call of that function with exactly two arguments, the prefix string and the payload.
\<close>

theorem default_renderer:
  assumes "templateInstantiates babel"
  shows "(\<forall>es. msg_content message = SequenceExpression es \<longrightarrow>
            getLogFunction babel level message metadata
              = consoleCall level (StringLiteral (displayPrefix metadata) # es) \<and>
            length (StringLiteral (displayPrefix metadata) # es) = length es + 1) \<and>
         (\<not> isSequence (msg_content message) \<longrightarrow>
            getLogFunction babel level message metadata
              = consoleCall level [StringLiteral (displayPrefix metadata), msg_content message])"
  using assms getLogFunction_sequence getLogFunction_single by simp

lemma exampleBabel_instantiates: "templateInstantiates exampleBabel"
  by (simp add: templateInstantiates_def exampleBabel_def)

text \<open>A sequence payload at indent 2, and an object payload at indent 0.\<close>

theorem default_renderer_witness:
  "getLogFunction exampleBabel ''log''
     (buildMessage nestedMetadata (SequenceExpression [StringLiteral ''hello'', Identifier ''username'']))
     nestedMetadata
   = ExprNode (CallExpression (MemberExpression (Identifier ''console'') (Identifier ''log''))
       [StringLiteral ''login:authenticate:    '', StringLiteral ''hello'', Identifier ''username'']) \<and>
   getLogFunction exampleBabel ''warn''
     (buildMessage exampleMetadata (ObjectExpression [ObjectProperty ''password'' (StringLiteral ''invalid'')]))
     exampleMetadata
   = ExprNode (CallExpression (MemberExpression (Identifier ''console'') (Identifier ''warn''))
       [StringLiteral ''login:authenticate:'', ObjectExpression [ObjectProperty ''password'' (StringLiteral ''invalid'')]])"
  using default_renderer [OF exampleBabel_instantiates, of
      "buildMessage nestedMetadata (SequenceExpression [StringLiteral ''hello'', Identifier ''username''])"
      "''log''" nestedMetadata]
    default_renderer [OF exampleBabel_instantiates, of
      "buildMessage exampleMetadata (ObjectExpression [ObjectProperty ''password'' (StringLiteral ''invalid'')])"
      "''warn''" exampleMetadata]
  by (simp add: buildMessage_def consoleCall_def displayPrefix_def nestedMetadata_def exampleMetadata_def
      isSequence_def numeral_2_eq_2)

section \<open>Normalizing the options\<close>

lemma normalizeAlias_idem: "normalizeAlias babel (normalizeAlias babel a) = normalizeAlias babel a"
  by (cases a) (simp_all add: normalizeAlias_def)

lemma normalizeOpts_normalized: "normalized (normalizeOpts babel opts)"
  by (simp add: normalizeOpts_def Let_def split: option.splits)

text \<open>
  An alias object that is present and empty is left as it is: the defaults are installed
  only when the option is absent, so the table can be empty after normalization.
\<close>

theorem normalize_counterexample:
  "aliases (normalizeOpts exampleBabel emptyAliases) = Some []"
  by (simp add: normalizeOpts_def emptyAliases_def)

text \<open>
  C8, amended. Normalization is idempotent: normalizing options that are already normalized
  (tagged) returns them as they are, so the alias table is the one a single normalization
  gives, and a template text is never wrapped twice. When the alias option is absent, the
  defaults \<open>log\<close>, \<open>trace\<close> and \<open>warn\<close> are installed, \<open>trace\<close> and \<open>log\<close> sharing the
  renderer of the level \<open>log\<close> and \<open>warn\<close> having the renderer of the level \<open>warn\<close>; in
  that case the table is not empty after normalization.
\<close>

theorem normalizeOpts_idempotent:
  "normalizeOpts babel (normalizeOpts babel opts) = normalizeOpts babel opts \<and>
   (normalized opts \<longrightarrow> normalizeOpts babel opts = opts) \<and>
   (\<forall>al. aliases opts = Some al \<longrightarrow>
      map (\<lambda>(key, a). (key, normalizeAlias babel a)) (map (\<lambda>(key, a). (key, normalizeAlias babel a)) al)
        = map (\<lambda>(key, a). (key, normalizeAlias babel a)) al) \<and>
   (\<not> normalized opts \<and> aliases opts = None \<longrightarrow>
      aliases (normalizeOpts babel opts) = Some (defaultTable babel) \<and>
      map fst (defaultTable babel) = [''log'', ''trace'', ''warn''] \<and>
      map_of (defaultTable babel) ''trace'' = map_of (defaultTable babel) ''log'' \<and>
      map_of (defaultTable babel) ''log'' = Some (AliasFunction (getLogFunction babel ''log'')) \<and>
      map_of (defaultTable babel) ''warn'' = Some (AliasFunction (getLogFunction babel ''warn'')) \<and>
      aliases (normalizeOpts babel opts) \<noteq> Some [])"
proof (intro conjI allI impI)
  show "normalizeOpts babel (normalizeOpts babel opts) = normalizeOpts babel opts"
    using normalizeOpts_normalized [of babel opts] by (simp add: normalizeOpts_def [of babel "normalizeOpts babel opts"])
next
  assume "normalized opts" then show "normalizeOpts babel opts = opts" by (simp add: normalizeOpts_def)
next
  fix al
  show "map (\<lambda>(key, a). (key, normalizeAlias babel a)) (map (\<lambda>(key, a). (key, normalizeAlias babel a)) al)
        = map (\<lambda>(key, a). (key, normalizeAlias babel a)) al"
    by (induction al) (auto simp: normalizeAlias_idem)
next
  assume a: "\<not> normalized opts \<and> aliases opts = None"
  then show "aliases (normalizeOpts babel opts) = Some (defaultTable babel)"
    by (simp add: normalizeOpts_def Let_def defaultTable_def)
  from a show "aliases (normalizeOpts babel opts) \<noteq> Some []"
    by (simp add: normalizeOpts_def Let_def)
qed (simp_all add: defaultTable_def)

text \<open>Options with a template alias, and options with no aliases.\<close>

theorem normalizeOpts_idempotent_witness:
  "normalizeOpts exampleBabel (normalizeOpts exampleBabel templateAliases) = normalizeOpts exampleBabel templateAliases \<and>
   normalizeOpts exampleBabel (normalizeOpts exampleBabel defaultOpts) = normalizeOpts exampleBabel defaultOpts \<and>
   aliases (normalizeOpts exampleBabel defaultOpts) = Some (defaultTable exampleBabel) \<and>
   aliases (normalizeOpts exampleBabel defaultOpts) \<noteq> Some []"
proof -
  have absent: "\<not> normalized defaultOpts \<and> aliases defaultOpts = None"
    by (simp add: defaultOpts_def)
  have 1: "normalizeOpts exampleBabel (normalizeOpts exampleBabel templateAliases)
             = normalizeOpts exampleBabel templateAliases"
    using normalizeOpts_idempotent [of exampleBabel templateAliases] by (rule conjunct1)
  have 2: "normalizeOpts exampleBabel (normalizeOpts exampleBabel defaultOpts)
             = normalizeOpts exampleBabel defaultOpts"
    using normalizeOpts_idempotent [of exampleBabel defaultOpts] by (rule conjunct1)
  have 3: "aliases (normalizeOpts exampleBabel defaultOpts) = Some (defaultTable exampleBabel) \<and>
           aliases (normalizeOpts exampleBabel defaultOpts) \<noteq> Some []"
    using normalizeOpts_idempotent [of exampleBabel defaultOpts] absent by blast
  from 1 2 3 show ?thesis by blast
qed

section \<open>The alias table of the macro\<close>

lemma map_of_assign: "map_of (assign m k v) = (map_of m)(k \<mapsto> v)"
  by (induction m) (auto simp: fun_eq_iff)

lemma map_of_assign_all:
  "map_of (foldl (\<lambda>m key. assign m key (f key)) m0 ks) k
     = (if k \<in> set ks then Some (f k) else map_of m0 k)"
  by (induction ks arbitrary: m0) (auto simp: map_of_assign)

lemma macroLogLevel_eq:
  "macroLogLevel w key = (if key \<in> set (effectiveWarningLabels w) then ''warn'' else ''log'')"
  by (cases w) (simp_all add: macroLogLevel_def effectiveWarningLabels_def)

lemma set_assign: "set (assign m k v) \<subseteq> insert (k, v) (set m)"
  by (induction m) (auto split: if_splits)

lemma set_assign_all:
  "set (foldl (\<lambda>m key. assign m key (f key)) m0 ks) \<subseteq> set m0 \<union> (\<lambda>key. (key, f key)) ` set ks"
proof (induction ks arbitrary: m0)
  case Nil
  then show ?case by simp
next
  case (Cons key ks)
  have "set (foldl (\<lambda>m key. assign m key (f key)) (assign m0 key (f key)) ks)
          \<subseteq> set (assign m0 key (f key)) \<union> (\<lambda>key. (key, f key)) ` set ks"
    by (rule Cons.IH)
  then show ?case using set_assign [of m0 key "f key"] by auto
qed

lemma normalize_functions:
  "\<forall>x \<in> set al. isAliasFunction (snd x) \<Longrightarrow>
   map (\<lambda>(key, a). (key, normalizeAlias babel a)) al = al"
  by (induction al) (auto simp: normalizeAlias_def isAliasFunction_def split: alias_value.splits)

text \<open>
  C10. In the macro, when at least one named import other than \<open>default\<close> is referenced,
  the configured aliases are discarded and the table maps each referenced name to the
  default renderer, at the level \<open>warn\<close> if the name is among the warning labels (by
  default \<open>warn\<close> alone) and at the level \<open>log\<close> otherwise; normalization leaves that
  table as it is. The configured aliases are used only when no named import is referenced.
\<close>

theorem macro_aliases:
  "(namedReferences references \<noteq> [] \<longrightarrow>
      (\<exists>table. macroAliases babel configured warningLabels references = Some table \<and>
         (\<forall>name. map_of table name =
            (if name \<in> set (namedReferences references)
             then Some (AliasFunction (getLogFunction babel
                    (if name \<in> set (effectiveWarningLabels warningLabels) then ''warn'' else ''log'')))
             else None)) \<and>
         aliases (normalizeOpts babel (macroOpts babel configured strp warningLabels references)) = Some table)) \<and>
   (namedReferences references = [] \<longrightarrow>
      macroAliases babel configured warningLabels references = configured)"
proof (intro conjI impI)
  assume ne: "namedReferences references \<noteq> []"
  define table where "table = foldl (\<lambda>m key. assign m key
      (AliasFunction (getLogFunction babel (macroLogLevel warningLabels key)))) [] (namedReferences references)"
  have 1: "macroAliases babel configured warningLabels references = Some table"
    using ne by (simp add: macroAliases_def table_def namedReferences_def Let_def)
  have 2: "map_of table name =
            (if name \<in> set (namedReferences references)
             then Some (AliasFunction (getLogFunction babel
                    (if name \<in> set (effectiveWarningLabels warningLabels) then ''warn'' else ''log'')))
             else None)" for name
    unfolding table_def
    using map_of_assign_all [of "\<lambda>key. AliasFunction (getLogFunction babel (macroLogLevel warningLabels key))"
        "[]" "namedReferences references" name]
    by (simp add: macroLogLevel_eq)
  have "\<forall>x \<in> set table. isAliasFunction (snd x)"
    unfolding table_def
    using set_assign_all [of "\<lambda>key. AliasFunction (getLogFunction babel (macroLogLevel warningLabels key))"
        "[]" "namedReferences references"]
    by (auto simp: isAliasFunction_def)
  then have 3: "aliases (normalizeOpts babel (macroOpts babel configured strp warningLabels references)) = Some table"
    using 1 by (simp add: normalizeOpts_def macroOpts_def normalize_functions)
  show "\<exists>table. macroAliases babel configured warningLabels references = Some table \<and>
         (\<forall>name. map_of table name =
            (if name \<in> set (namedReferences references)
             then Some (AliasFunction (getLogFunction babel
                    (if name \<in> set (effectiveWarningLabels warningLabels) then ''warn'' else ''log'')))
             else None)) \<and>
         aliases (normalizeOpts babel (macroOpts babel configured strp warningLabels references)) = Some table"
    using 1 2 3 by blast
next
  assume "namedReferences references = []"
  then show "macroAliases babel configured warningLabels references = configured"
    by (simp add: macroAliases_def namedReferences_def Let_def)
qed

text \<open>Three named imports beside the default one, and the default import alone.\<close>

theorem macro_aliases_witness:
  "macroAliases exampleBabel (aliases templateAliases) WarningLabelsAbsent [''default'', ''log'', ''announce'', ''warn'']
     = Some [(''log'', AliasFunction (getLogFunction exampleBabel ''log'')),
             (''announce'', AliasFunction (getLogFunction exampleBabel ''log'')),
             (''warn'', AliasFunction (getLogFunction exampleBabel ''warn''))] \<and>
   macroAliases exampleBabel (aliases templateAliases) WarningLabelsAbsent [''default''] = aliases templateAliases"
  using macro_aliases [of "[''default'', ''log'', ''announce'', ''warn'']" exampleBabel "aliases templateAliases" WarningLabelsAbsent StripAbsent]
    macro_aliases [of "[''default'']" exampleBabel "aliases templateAliases" WarningLabelsAbsent StripAbsent]
  by (simp add: namedReferences_def macroAliases_def macroLogLevel_def)

section \<open>The scan for the start message\<close>

lemma ancestry_step_parent_kept:
  "parent w = Some x \<Longrightarrow> parent (ancestry_step w item) = Some x"
  by (cases item) (simp_all add: set_parent_def Let_def)

lemma ancestry_parent_kept:
  "parent w = Some x \<Longrightarrow> parent (foldl ancestry_step w items) = Some x"
  by (induction items arbitrary: w) (simp_all add: ancestry_step_parent_kept)

lemma ancestry_step_parent_found:
  "parent w = None \<Longrightarrow> parent (ancestry_step w item) = (if isScope item then Some item else None)"
  by (cases item) (simp_all add: set_parent_def Let_def)

lemma ancestry_parent:
  "parent w = None \<Longrightarrow> parent (foldl ancestry_step w items) = find isScope items"
proof (induction items arbitrary: w)
  case Nil
  then show ?case by simp
next
  case (Cons item items)
  show ?case
  proof (cases "isScope item")
    case True
    then have "parent (ancestry_step w item) = Some item"
      using Cons.prems by (simp add: ancestry_step_parent_found)
    then show ?thesis using True by (simp add: ancestry_parent_kept)
  next
    case False
    then have "parent (ancestry_step w item) = None"
      using Cons.prems by (simp add: ancestry_step_parent_found)
    then show ?thesis using False Cons.IH by simp
  qed
qed

lemma collectMetadata_flags:
  "startFlags (collectMetadata p path opts) = startMessage opts path (nearestScope path)"
  by (simp add: startFlags_def collectMetadata_def Let_def nearestScope_def ancestry_parent)

lemma scan_handled: "handled child \<Longrightarrow> startMessageScan opts self i (child # rest) = (True, False)"
  by simp

lemma scan_unlabeled:
  "\<not> handled child \<Longrightarrow> \<not> isLabeledStatement child \<Longrightarrow>
   startMessageScan opts self i (child # rest) = (False, False)"
  by (cases child) (simp_all add: isLabeledStatement_def)

lemma scan_alias:
  "has_alias opts name \<Longrightarrow>
   startMessageScan opts self i (LabeledStatement name b # rest) = (True, self = Some i)"
  by simp

lemma defaults_have_trace: "has_alias normalizedDefaults ''trace''"
  by (simp add: normalizedDefaults_def normalizeOpts_def defaultOpts_def has_alias_def Let_def)

section \<open>The walk over the body\<close>

text \<open>An expression the first visitor passes holds no function, so no statement and no label.\<close>

lemma no_effect_no_label:
  "\<not> sideEffect_expr e \<Longrightarrow> \<not> hasLabel_expr l e"
  "\<not> sideEffect_exprs es \<Longrightarrow> \<not> hasLabel_exprs l es"
  "\<not> sideEffect_property pr \<Longrightarrow> \<not> hasLabel_property l pr"
  "\<not> sideEffect_properties prs \<Longrightarrow> \<not> hasLabel_properties l prs"
  "\<not> sideEffect_member m \<Longrightarrow> \<not> hasLabel_member l m"
  "\<not> sideEffect_members ms \<Longrightarrow> \<not> hasLabel_members l ms"
  by (induction e and es and pr and prs and m and ms
      rule: sideEffect_expr_sideEffect_exprs_sideEffect_property_sideEffect_properties_sideEffect_member_sideEffect_members.induct)
     (auto split: option.splits)

lemma traverse_no_label:
  "traverse_stmt rw s = Inr s' \<Longrightarrow> \<not> nestedLabel l s \<Longrightarrow> \<not> hasLabel_stmt l s'"
  "traverse_stmts rw ss = Inr ss' \<Longrightarrow> \<not> nestedLabels l ss \<Longrightarrow> \<not> hasLabel_stmts l ss'"
proof (induction rw s and rw ss arbitrary: s' and ss' rule: traverse_stmt_traverse_stmts.induct)
  case (1 rw h e)
  then show ?case
    by (auto split: if_splits sum.splits simp: no_effect_no_label)
next
  case (2 rw ss)
  then show ?case by (auto split: sum.splits)
next
  case (3 rw l' s)
  then show ?case by (auto split: sum.splits)
next
  case (4 rw c t a)
  then show ?case
    by (auto split: if_splits sum.splits option.splits simp: no_effect_no_label)
next
  case (8 rw n ms)
  then show ?case by (auto split: if_splits simp: no_effect_no_label)
next
  case (11 rw s ss)
  then show ?case by (auto split: sum.splits)
qed simp_all

text \<open>The walk returns the statement rewritten, and every replacement it asked for was given.\<close>

lemma traverse_rewrite:
  "traverse_stmt rw s = Inr s' \<Longrightarrow>
     s' = rewrite_stmt (\<lambda>e. case rw e of Inr r \<Rightarrow> r | Inl err \<Rightarrow> e) s \<and>
     (\<forall>e \<in> set (payloads s). \<exists>r. rw e = Inr r)"
  "traverse_stmts rw ss = Inr ss' \<Longrightarrow>
     ss' = rewrite_stmts (\<lambda>e. case rw e of Inr r \<Rightarrow> r | Inl err \<Rightarrow> e) ss \<and>
     (\<forall>e \<in> set (payloads_list ss). \<exists>r. rw e = Inr r)"
proof (induction rw s and rw ss arbitrary: s' and ss' rule: traverse_stmt_traverse_stmts.induct)
  case (1 rw h e)
  then show ?case by (auto split: if_splits sum.splits)
next
  case (2 rw ss)
  then show ?case by (auto split: sum.splits)
next
  case (3 rw l' s)
  then show ?case by (auto split: sum.splits)
next
  case (4 rw c t a)
  then show ?case by (auto split: if_splits sum.splits option.splits)
next
  case (8 rw n ms)
  then show ?case by (auto split: if_splits)
next
  case (11 rw s ss)
  then show ?case by (auto split: sum.splits)
qed simp_all

text \<open>With a renderer that always gives an expression, the only error is the side-effect error.\<close>

lemma traverse_error:
  "\<forall>e. \<exists>r. rw e = Inr r \<Longrightarrow> traverse_stmt rw s = Inl err \<Longrightarrow> err = sideEffectsError"
  "\<forall>e. \<exists>r. rw e = Inr r \<Longrightarrow> traverse_stmts rw ss = Inl err \<Longrightarrow> err = sideEffectsError"
proof (induction rw s and rw ss rule: traverse_stmt_traverse_stmts.induct)
  case (1 rw h e)
  obtain r where "rw e = Inr r" using "1.prems"(1) by blast
  then show ?case using "1.prems"(2) by (auto split: if_splits)
next
  case (2 rw ss)
  then show ?case by (auto split: sum.splits)
next
  case (3 rw l' s)
  then show ?case by (auto split: sum.splits)
next
  case (4 rw c t a)
  then show ?case by (auto split: if_splits sum.splits option.splits)
next
  case (8 rw n ms)
  then show ?case by (auto split: if_splits)
next
  case (11 rw s ss)
  then show ?case by (auto split: sum.splits)
qed simp_all

text \<open>
  A side effect in the statement stops the walk, when the renderer's result holds what the
  payload holds.
\<close>

lemma traverse_side_effect:
  "\<forall>e. \<exists>r. rw e = Inr r \<and> (sideEffect_expr e \<longrightarrow> sideEffect_expr r) \<Longrightarrow>
   sideEffect_stmt s \<Longrightarrow> \<exists>err. traverse_stmt rw s = Inl err"
  "\<forall>e. \<exists>r. rw e = Inr r \<and> (sideEffect_expr e \<longrightarrow> sideEffect_expr r) \<Longrightarrow>
   sideEffect_stmts ss \<Longrightarrow> \<exists>err. traverse_stmts rw ss = Inl err"
proof (induction rw s and rw ss rule: traverse_stmt_traverse_stmts.induct)
  case (1 rw h e)
  obtain r where "rw e = Inr r" "sideEffect_expr e \<longrightarrow> sideEffect_expr r"
    using "1.prems"(1) by blast
  then show ?case using "1.prems"(2) by auto
next
  case (2 rw ss)
  then show ?case by (auto split: sum.splits)
next
  case (3 rw l' s)
  then show ?case by (auto split: sum.splits)
next
  case (4 rw c t a)
  show ?case
  proof (cases "sideEffect_expr c")
    case True
    then show ?thesis by simp
  next
    case nc: False
    show ?thesis
    proof (cases "traverse_stmt rw t")
      case (Inl err)
      then show ?thesis using nc by simp
    next
      case (Inr t')
      have "\<not> sideEffect_stmt t"
        using "4.IH"(1) nc "4.prems"(1) Inr by fastforce
      then obtain s where a: "a = Some s" and se: "sideEffect_stmt s"
        using "4.prems"(2) nc by (auto split: option.splits)
      obtain err where "traverse_stmt rw s = Inl err"
        using "4.IH"(2) nc Inr a "4.prems"(1) se by blast
      then show ?thesis using nc Inr a by simp
    qed
  qed
next
  case (8 rw n ms)
  then show ?case by (auto split: if_splits)
next
  case (11 rw s ss)
  then show ?case by (auto split: sum.splits)
qed simp_all

text \<open>
  Without a side effect in the statement the walk completes, when the renderer's result
  holds none that the payload does not hold.
\<close>

lemma traverse_completes:
  "\<forall>e. \<exists>r. rw e = Inr r \<and> (sideEffect_expr r \<longrightarrow> sideEffect_expr e) \<Longrightarrow>
   \<not> sideEffect_stmt s \<Longrightarrow> \<exists>s'. traverse_stmt rw s = Inr s'"
  "\<forall>e. \<exists>r. rw e = Inr r \<and> (sideEffect_expr r \<longrightarrow> sideEffect_expr e) \<Longrightarrow>
   \<not> sideEffect_stmts ss \<Longrightarrow> \<exists>ss'. traverse_stmts rw ss = Inr ss'"
proof (induction rw s and rw ss rule: traverse_stmt_traverse_stmts.induct)
  case (1 rw h e)
  obtain r where "rw e = Inr r" "sideEffect_expr r \<longrightarrow> sideEffect_expr e"
    using "1.prems"(1) by blast
  then show ?case using "1.prems"(2) by auto
next
  case (2 rw ss)
  then show ?case by (auto split: sum.splits)
next
  case (3 rw l' s)
  then show ?case by (auto split: sum.splits)
next
  case (4 rw c t a)
  have nc: "\<not> sideEffect_expr c" and nt: "\<not> sideEffect_stmt t" using "4.prems"(2) by simp_all
  obtain t' where t: "traverse_stmt rw t = Inr t'"
    using "4.IH"(1) nc "4.prems"(1) nt by blast
  show ?case
  proof (cases a)
    case None
    then show ?thesis using nc t by simp
  next
    case (Some s)
    then have "\<not> sideEffect_stmt s" using "4.prems"(2) by simp
    then obtain s' where "traverse_stmt rw s = Inr s'"
      using "4.IH"(2) nc t Some "4.prems"(1) by blast
    then show ?thesis using nc t Some by simp
  qed
next
  case (8 rw n ms)
  then show ?case by auto
next
  case (11 rw s ss)
  then show ?case by (auto split: sum.splits)
qed simp_all

section \<open>The label rewriter\<close>

lemma has_alias_aliases: "has_alias opts name \<Longrightarrow> aliases opts \<noteq> None"
  by (auto simp: has_alias_def split: option.splits)

lemma handle_unfold:
  assumes "has_alias (normalizeOpts babel opts) (label path)"
  shows "handleLabeledStatement babel p path opts =
     (if stripDecision babel p path opts then Inr (Removed, normalizeOpts babel opts)
      else (case traverse_stmt
                  (replacementFor (normalizeOpts babel opts) (label path) (metadataOf babel p path opts))
                  (body path) of
              Inl err \<Rightarrow> Inl err
            | Inr s' \<Rightarrow> Inr (unwrapped s', normalizeOpts babel opts)))"
proof -
  have "aliases (normalizeOpts babel opts) \<noteq> None" using assms by (rule has_alias_aliases)
  then show ?thesis
    using assms
    by (auto simp: handleLabeledStatement_def Let_def stripDecision_def metadataOf_def unwrapped_def
        split: sum.splits stmt.splits)
qed

lemma traverse_replaced:
  assumes "traverse_stmt (replacementFor (normalizeOpts babel opts) (label path) (metadataOf babel p path opts))
             (body path) = Inr s'"
  shows "s' = rewrittenBody babel p path opts"
  using traverse_rewrite(1) [OF assms]
  by (simp add: rewrittenBody_def replaced_def [abs_def])

lemma rewrite_length: "length (rewrite_stmts g ss) = length ss"
  by (induction ss) simp_all

lemma contributed_unwrapped_length:
  "length (contributed path (unwrapped (rewrite_stmt g s))) = bodyLength s"
  by (cases s) (simp_all add: unwrapped_def bodyLength_def rewrite_length)

lemma contributed_unwrapped_label:
  "\<not> hasLabel_stmt l s' \<Longrightarrow> \<forall>s \<in> set (contributed path (unwrapped s')). \<not> hasLabel_stmt l s"
proof (cases s')
  case (BlockStatement ss)
  assume "\<not> hasLabel_stmt l s'"
  then have "\<not> hasLabel_stmts l ss" using BlockStatement by simp
  then have "\<forall>s \<in> set ss. \<not> hasLabel_stmt l s" by (induction ss) auto
  then show ?thesis using BlockStatement by (simp add: unwrapped_def)
qed (simp_all add: unwrapped_def)

lemma renderer_has_alias:
  "rendererOf babel opts name = Some f \<Longrightarrow> has_alias (normalizeOpts babel opts) name"
  by (auto simp: rendererOf_def has_alias_def split: option.splits alias_value.splits)

lemma renderer_replacement:
  "rendererOf babel opts name = Some f \<Longrightarrow>
   replacementFor (normalizeOpts babel opts) name metadata e
     = (case f (buildMessage metadata e) metadata of ExprNode r \<Rightarrow> Inr r | StmtNode s \<Rightarrow> Inl TypeError)"
  by (auto simp: rendererOf_def replacementFor_def callAlias_def split: option.splits alias_value.splits node.splits)

text \<open>The default renderer holds the payload and adds nothing to it.\<close>

lemma default_embeds:
  assumes "templateInstantiates babel"
  shows "embedsPayload (getLogFunction babel level)"
  unfolding embedsPayload_def
proof (intro allI)
  fix message metadata
  show "\<exists>r. getLogFunction babel level message metadata = ExprNode r \<and>
          (sideEffect_expr (msg_content message) \<longrightarrow> sideEffect_expr r)"
  proof (cases "isSequence (msg_content message)")
    case True
    then obtain es where "msg_content message = SequenceExpression es"
      by (auto simp: isSequence_def split: expr.splits)
    then show ?thesis
      using getLogFunction_sequence [of message es babel level metadata]
      by (simp add: consoleCall_def)
  next
    case False
    then show ?thesis
      using getLogFunction_single [OF assms False, of level metadata]
      by (simp add: consoleCall_def)
  qed
qed

lemma default_adds_none:
  assumes "templateInstantiates babel"
  shows "addsNoEffect (getLogFunction babel level)"
  unfolding addsNoEffect_def
proof (intro allI)
  fix message metadata
  show "\<exists>r. getLogFunction babel level message metadata = ExprNode r \<and>
          (sideEffect_expr r \<longrightarrow> sideEffect_expr (msg_content message))"
  proof (cases "isSequence (msg_content message)")
    case True
    then obtain es where "msg_content message = SequenceExpression es"
      by (auto simp: isSequence_def split: expr.splits)
    then show ?thesis
      using getLogFunction_sequence [of message es babel level metadata]
      by (simp add: consoleCall_def)
  next
    case False
    then show ?thesis
      using getLogFunction_single [OF assms False, of level metadata]
      by (simp add: consoleCall_def)
  qed
qed

lemma handle_completes:
  assumes "rendererOf babel opts (label path) = Some f"
    and "addsNoEffect f"
    and "\<not> sideEffect_stmt (body path)"
  shows "\<exists>outcome. handleLabeledStatement babel p path opts = Inr (outcome, normalizeOpts babel opts)"
proof -
  let ?md = "metadataOf babel p path opts"
  let ?rw = "replacementFor (normalizeOpts babel opts) (label path) ?md"
  have known: "has_alias (normalizeOpts babel opts) (label path)"
    using assms(1) by (rule renderer_has_alias)
  have "\<forall>e. \<exists>r. ?rw e = Inr r \<and> (sideEffect_expr r \<longrightarrow> sideEffect_expr e)"
  proof
    fix e
    obtain r where "f (buildMessage ?md e) ?md = ExprNode r"
      and "sideEffect_expr r \<longrightarrow> sideEffect_expr (msg_content (buildMessage ?md e))"
      using assms(2) unfolding addsNoEffect_def by blast
    then show "\<exists>r. ?rw e = Inr r \<and> (sideEffect_expr r \<longrightarrow> sideEffect_expr e)"
      by (simp add: renderer_replacement [OF assms(1)] buildMessage_def)
  qed
  then obtain s' where "traverse_stmt ?rw (body path) = Inr s'"
    using traverse_completes(1) assms(3) by blast
  then show ?thesis by (simp add: handle_unfold [OF known])
qed

text \<open>The examples at the top level of \<open>src/login.js\<close>, evaluated.\<close>

lemma topLevel_metadata:
  "collectMetadata exampleProcess (topLevel name b) opts = loginMetadata"
  by (simp add: collectMetadata_def Let_def exampleProcess_def topLevel_def loginMetadata_def
      fspath_resolve_def fspath_dirname_def fspath_extname_def fspath_basename_ext_def
      last_component_def strip_trailing_slashes_def isSlash_def generatePrefix_def startMessage_def
      set_parent_def)

lemma topLevel_fields:
  "label (topLevel name b) = name" "body (topLevel name b) = b"
  by (simp_all add: topLevel_def)

lemma exampleProcess_keeps_all:
  "strip_requested exampleProcess c \<Longrightarrow> shouldStrip exampleProcess name metadata (opts\<lparr>strip := c\<rparr>)"
  by (simp add: shouldStrip_def PRESERVE_CONTEXTS_def PRESERVE_FILES_def PRESERVE_LEVELS_def
      exampleProcess_def normalizeEnv_def)

lemma normalizedDefaults_eq:
  "normalizedDefaults = \<lparr>aliases = Some (defaultTable exampleBabel), strip = StripAbsent, normalized = True\<rparr>"
  by (simp add: normalizedDefaults_def normalizeOpts_def defaultOpts_def defaultTable_def Let_def)

lemma trace_renderer: "rendererOf exampleBabel defaultOpts ''trace'' = Some (getLogFunction exampleBabel ''log'')"
  by (simp add: rendererOf_def normalizeOpts_def defaultOpts_def Let_def)

lemma default_not_stripped: "\<not> stripDecision exampleBabel exampleProcess (topLevel name b) defaultOpts"
  by (simp add: stripDecision_def Let_def shouldStrip_def strip_requested_def normalizeOpts_def defaultOpts_def)

lemma log_single:
  "\<not> isSequence e \<Longrightarrow>
   getLogFunction exampleBabel ''log'' (buildMessage loginMetadata e) loginMetadata
     = ExprNode (consoleLog [StringLiteral ''login::'', e])"
  using getLogFunction_single [OF exampleBabel_instantiates, of "buildMessage loginMetadata e" "''log''" loginMetadata]
  by (simp add: buildMessage_def consoleCall_def consoleLog_def displayPrefix_def loginMetadata_def)

lemma log_sequence:
  "getLogFunction exampleBabel ''log'' (buildMessage loginMetadata (SequenceExpression es)) loginMetadata
     = ExprNode (consoleLog (StringLiteral ''login::'' # es))"
  using getLogFunction_sequence [of "buildMessage loginMetadata (SequenceExpression es)" es exampleBabel "''log''" loginMetadata]
  by (simp add: buildMessage_def consoleCall_def consoleLog_def displayPrefix_def loginMetadata_def)

lemma trace_replacement:
  "replacementFor normalizedDefaults ''trace'' loginMetadata e
     = (case getLogFunction exampleBabel ''log'' (buildMessage loginMetadata e) loginMetadata of
          ExprNode r \<Rightarrow> Inr r | StmtNode s \<Rightarrow> Inl TypeError)"
  by (simp add: replacementFor_def callAlias_def normalizedDefaults_eq defaultTable_def split: node.splits)

lemma handle_default_trace:
  "handleLabeledStatement exampleBabel exampleProcess (topLevel ''trace'' b) defaultOpts
     = (case traverse_stmt (replacementFor normalizedDefaults ''trace'' loginMetadata) b of
          Inl err \<Rightarrow> Inl err
        | Inr s' \<Rightarrow> Inr (unwrapped s', normalizedDefaults))"
proof -
  have "has_alias (normalizeOpts exampleBabel defaultOpts) (label (topLevel ''trace'' b))"
    by (simp add: has_alias_def normalizeOpts_def defaultOpts_def Let_def topLevel_fields)
  from handle_unfold [OF this, of exampleProcess]
  show ?thesis
    unfolding normalizedDefaults_def
    by (simp add: default_not_stripped metadataOf_def topLevel_metadata topLevel_fields)
qed

lemma eval_twoMessages:
  "handleLabeledStatement exampleBabel exampleProcess (topLevel ''trace'' twoMessages) defaultOpts
     = Inr (ReplacedWithMultiple
              [ExpressionStatement True
                 (consoleLog [StringLiteral ''login::'', StringLiteral ''authenticating user'', Identifier ''username'']),
               ExpressionStatement True (consoleLog [StringLiteral ''login::'', StringLiteral ''done''])],
            normalizedDefaults)"
  by (simp add: handle_default_trace twoMessages_def trace_replacement log_sequence log_single
      isSequence_def consoleLog_def unwrapped_def)

lemma eval_nestedMessage:
  "handleLabeledStatement exampleBabel exampleProcess (topLevel ''trace'' nestedMessage) defaultOpts
     = Inr (ReplacedWithMultiple
              [IfStatement (Identifier ''verbose'')
                 (ExpressionStatement True (consoleLog [StringLiteral ''login::'', StringLiteral ''detail'']))
                 None],
            normalizedDefaults)"
  by (simp add: handle_default_trace nestedMessage_def trace_replacement log_single
      isSequence_def consoleLog_def unwrapped_def)

lemma eval_classInBlock:
  "handleLabeledStatement exampleBabel exampleProcess (topLevel ''trace'' classInBlock) defaultOpts
     = Inr (ReplacedWithMultiple [ClassDeclaration ''A'' []], normalizedDefaults)"
  by (simp add: handle_default_trace classInBlock_def unwrapped_def)

lemma eval_stripped:
  "handleLabeledStatement exampleBabel exampleProcess (topLevel ''trace'' assignment) stripAll
     = Inr (Removed, normalizeOpts exampleBabel stripAll)"
proof -
  have a: "has_alias (normalizeOpts exampleBabel stripAll) (label (topLevel ''trace'' assignment))"
    by (simp add: has_alias_def normalizeOpts_def stripAll_def Let_def topLevel_fields)
  have "stripDecision exampleBabel exampleProcess (topLevel ''trace'' assignment) stripAll"
    using exampleProcess_keeps_all [of "StripBool True" "''trace''" loginMetadata "normalizeOpts exampleBabel stripAll"]
    by (simp add: stripDecision_def Let_def strip_requested_def normalizeOpts_def stripAll_def
        topLevel_fields topLevel_metadata)
  then show ?thesis by (simp add: handle_unfold [OF a])
qed

lemma eval_audit:
  "handleLabeledStatement exampleBabel exampleProcess (topLevel ''audit'' assignment) templateAliases
     = Inr (ReplacedWith (ExpressionStatement True (CallExpression (Identifier ''audit'') [StringLiteral []])),
            normalizeOpts exampleBabel templateAliases)"
proof -
  have a: "has_alias (normalizeOpts exampleBabel templateAliases) (label (topLevel ''audit'' assignment))"
    by (simp add: has_alias_def normalizeOpts_def templateAliases_def normalizeAlias_def topLevel_fields)
  have ns: "\<not> stripDecision exampleBabel exampleProcess (topLevel ''audit'' assignment) templateAliases"
    by (simp add: stripDecision_def Let_def shouldStrip_def strip_requested_def normalizeOpts_def templateAliases_def)
  have r: "replacementFor (normalizeOpts exampleBabel templateAliases) ''audit'' loginMetadata e
             = Inr (CallExpression (Identifier ''audit'') [StringLiteral []])" for e
    by (simp add: replacementFor_def callAlias_def normalizeOpts_def templateAliases_def normalizeAlias_def
        expression_def exampleBabel_def message_ids_def buildMessage_def loginMetadata_def)
  show ?thesis
    using handle_unfold [OF a, of exampleProcess] ns
    by (simp add: metadataOf_def topLevel_metadata topLevel_fields assignment_def r unwrapped_def)
qed

text \<open>
  C1. For a labeled statement whose label is an alias of the normalized options, and whose
  body does not declare the label again (JavaScript forbids it), processing removes the
  label wrapper. If the strip decision is true the statement is removed, and processing
  cannot fail. Otherwise, whenever processing completes, the statement is replaced by the
  contents of its rewritten body: the N statements of a block body, or the one statement of
  any other body; and no statement with that label is left in what stands in its place.
  Processing completes when the body holds no side effect and the renderer adds none.
\<close>

theorem label_wrapper_removed:
  assumes known: "has_alias (normalizeOpts babel opts) (label path)"
    and valid: "\<not> nestedLabel (label path) (body path)"
  shows "(stripDecision babel p path opts \<longrightarrow>
            handleLabeledStatement babel p path opts = Inr (Removed, normalizeOpts babel opts)) \<and>
         (\<forall>outcome opts'. handleLabeledStatement babel p path opts = Inr (outcome, opts') \<longrightarrow>
            outcome = (if stripDecision babel p path opts then Removed
                       else unwrapped (rewrittenBody babel p path opts)) \<and>
            length (contributed path outcome)
              = (if stripDecision babel p path opts then 0 else bodyLength (body path)) \<and>
            (\<forall>s \<in> set (contributed path outcome). \<not> hasLabel_stmt (label path) s)) \<and>
         (\<forall>f. rendererOf babel opts (label path) = Some f \<and> addsNoEffect f \<and>
              \<not> sideEffect_stmt (body path) \<longrightarrow>
            (\<exists>outcome. handleLabeledStatement babel p path opts = Inr (outcome, normalizeOpts babel opts)))"
proof -
  let ?rw = "replacementFor (normalizeOpts babel opts) (label path) (metadataOf babel p path opts)"
  have stripped: "stripDecision babel p path opts \<longrightarrow>
      handleLabeledStatement babel p path opts = Inr (Removed, normalizeOpts babel opts)"
    by (simp add: handle_unfold [OF known])
  have completed: "outcome = (if stripDecision babel p path opts then Removed
                       else unwrapped (rewrittenBody babel p path opts)) \<and>
            length (contributed path outcome)
              = (if stripDecision babel p path opts then 0 else bodyLength (body path)) \<and>
            (\<forall>s \<in> set (contributed path outcome). \<not> hasLabel_stmt (label path) s)"
    if fin: "handleLabeledStatement babel p path opts = Inr (outcome, opts')" for outcome opts'
  proof (cases "stripDecision babel p path opts")
    case True
    then have "outcome = Removed" using fin by (simp add: handle_unfold [OF known])
    then show ?thesis using True by simp
  next
    case False
    obtain s' where t: "traverse_stmt ?rw (body path) = Inr s'" and o: "outcome = unwrapped s'"
      using fin False by (auto simp: handle_unfold [OF known] split: sum.splits)
    have r: "s' = rewrittenBody babel p path opts" using t by (rule traverse_replaced)
    have nl: "\<not> hasLabel_stmt (label path) s'" using traverse_no_label(1) [OF t valid] .
    have 1: "outcome = unwrapped (rewrittenBody babel p path opts)" using o r by simp
    have 2: "length (contributed path outcome) = bodyLength (body path)"
      using o r by (simp add: rewrittenBody_def contributed_unwrapped_length)
    have 3: "\<forall>s \<in> set (contributed path outcome). \<not> hasLabel_stmt (label path) s"
      using o contributed_unwrapped_label [OF nl] by simp
    from False 1 2 3 show ?thesis by simp
  qed
  have completes: "\<exists>outcome. handleLabeledStatement babel p path opts = Inr (outcome, normalizeOpts babel opts)"
    if "rendererOf babel opts (label path) = Some f \<and> addsNoEffect f \<and> \<not> sideEffect_stmt (body path)" for f
    using that handle_completes by blast
  from stripped completed completes show ?thesis by blast
qed

text \<open>
  A block of two messages under \<open>trace:\<close> contributes two statements, and its processing
  completes; with \<open>strip: true\<close> the statement is removed.
\<close>

theorem label_wrapper_removed_witness:
  "length (contributed (topLevel ''trace'' twoMessages)
     (ReplacedWithMultiple
        [ExpressionStatement True
           (consoleLog [StringLiteral ''login::'', StringLiteral ''authenticating user'', Identifier ''username'']),
         ExpressionStatement True (consoleLog [StringLiteral ''login::'', StringLiteral ''done''])])) = 2 \<and>
   handleLabeledStatement exampleBabel exampleProcess (topLevel ''trace'' assignment) stripAll
     = Inr (Removed, normalizeOpts exampleBabel stripAll) \<and>
   (\<exists>outcome. handleLabeledStatement exampleBabel exampleProcess (topLevel ''trace'' twoMessages) defaultOpts
      = Inr (outcome, normalizeOpts exampleBabel defaultOpts))"
proof -
  let ?path = "topLevel ''trace'' twoMessages"
  have a: "has_alias (normalizeOpts exampleBabel defaultOpts) (label ?path)"
    by (simp add: has_alias_def normalizeOpts_def defaultOpts_def Let_def topLevel_fields)
  have v: "\<not> nestedLabel (label ?path) (body ?path)"
    by (simp add: topLevel_fields twoMessages_def)
  have 1: "length (contributed ?path
     (ReplacedWithMultiple
        [ExpressionStatement True
           (consoleLog [StringLiteral ''login::'', StringLiteral ''authenticating user'', Identifier ''username'']),
         ExpressionStatement True (consoleLog [StringLiteral ''login::'', StringLiteral ''done''])])) = 2"
  proof -
    let ?out = "ReplacedWithMultiple
        [ExpressionStatement True
           (consoleLog [StringLiteral ''login::'', StringLiteral ''authenticating user'', Identifier ''username'']),
         ExpressionStatement True (consoleLog [StringLiteral ''login::'', StringLiteral ''done''])]"
    have "length (contributed ?path ?out)
            = (if stripDecision exampleBabel exampleProcess ?path defaultOpts then 0
               else bodyLength (body ?path))"
      using label_wrapper_removed [OF a v, of exampleProcess] eval_twoMessages by blast
    also have "\<dots> = bodyLength (body ?path)" using default_not_stripped by simp
    also have "\<dots> = 2" by (simp add: topLevel_fields bodyLength_def twoMessages_def)
    finally show ?thesis .
  qed
  let ?spath = "topLevel ''trace'' assignment"
  have sa: "has_alias (normalizeOpts exampleBabel stripAll) (label ?spath)"
    by (simp add: has_alias_def normalizeOpts_def stripAll_def Let_def topLevel_fields)
  have sv: "\<not> nestedLabel (label ?spath) (body ?spath)"
    by (simp add: topLevel_fields assignment_def)
  have sd: "stripDecision exampleBabel exampleProcess ?spath stripAll"
    using exampleProcess_keeps_all [of "StripBool True" "''trace''" loginMetadata "normalizeOpts exampleBabel stripAll"]
    by (simp add: stripDecision_def Let_def strip_requested_def normalizeOpts_def stripAll_def
        topLevel_fields topLevel_metadata)
  have 2: "handleLabeledStatement exampleBabel exampleProcess ?spath stripAll
     = Inr (Removed, normalizeOpts exampleBabel stripAll)"
    using label_wrapper_removed [OF sa sv, of exampleProcess] sd by blast
  have r: "rendererOf exampleBabel defaultOpts (label ?path) = Some (getLogFunction exampleBabel ''log'')"
    by (simp add: topLevel_fields trace_renderer)
  have n: "addsNoEffect (getLogFunction exampleBabel ''log'')"
    using exampleBabel_instantiates by (rule default_adds_none)
  have c: "\<not> sideEffect_stmt (body ?path)"
    by (simp add: topLevel_fields twoMessages_def)
  have 3: "\<exists>outcome. handleLabeledStatement exampleBabel exampleProcess ?path defaultOpts
      = Inr (outcome, normalizeOpts exampleBabel defaultOpts)"
    using label_wrapper_removed [OF a v, of exampleProcess] r n c by blast
  from 1 2 3 show ?thesis by blast
qed

text \<open>
  An assignment under an alias label raises no error when the label is stripped, nor when
  the renderer of the label drops the payload; and a class declaration without methods in
  the body raises none.
\<close>

theorem side_effects_counterexample:
  "sideEffect_stmt assignment \<and>
   handleLabeledStatement exampleBabel exampleProcess (topLevel ''trace'' assignment) stripAll
     = Inr (Removed, normalizeOpts exampleBabel stripAll) \<and>
   handleLabeledStatement exampleBabel exampleProcess (topLevel ''audit'' assignment) templateAliases
     = Inr (ReplacedWith (ExpressionStatement True (CallExpression (Identifier ''audit'') [StringLiteral []])),
            normalizeOpts exampleBabel templateAliases) \<and>
   handleLabeledStatement exampleBabel exampleProcess (topLevel ''trace'' classInBlock) defaultOpts
     = Inr (ReplacedWithMultiple [ClassDeclaration ''A'' []], normalizedDefaults)"
  using eval_stripped eval_audit eval_classInBlock by (simp add: assignment_def)

text \<open>
  C2, amended. For a labeled statement whose label is an alias, whose strip decision is
  false, and whose renderer returns an expression that holds a side effect whenever the
  payload does (the default renderer does, its result holding the payload), if the body
  holds a variable declaration, a function (a declaration, a function expression, an arrow
  function or a method), an assignment, an update, a yield or a return, processing fails
  with the error \<open>Logging statements cannot have side effects.\<close> A function is such a
  construct whatever its body holds.
\<close>

theorem side_effects_rejected:
  assumes "rendererOf babel opts (label path) = Some f"
    and "embedsPayload f"
    and "\<not> stripDecision babel p path opts"
    and "sideEffect_stmt (body path)"
  shows "handleLabeledStatement babel p path opts
           = Inl (CodeFrameError ''Logging statements cannot have side effects.'') \<and>
         (\<forall>n ps k b. sideEffect_expr (FunctionExpression n ps b) \<and>
                     sideEffect_expr (ArrowFunctionExpression ps b) \<and>
                     sideEffect_stmt (FunctionDeclaration k ps b) \<and>
                     sideEffect_member (ClassMethod k ps b)) \<and>
         (\<forall>level. templateInstantiates babel \<longrightarrow> embedsPayload (getLogFunction babel level))"
proof -
  let ?md = "metadataOf babel p path opts"
  let ?rw = "replacementFor (normalizeOpts babel opts) (label path) ?md"
  have known: "has_alias (normalizeOpts babel opts) (label path)"
    using assms(1) by (rule renderer_has_alias)
  have rw: "\<forall>e. \<exists>r. ?rw e = Inr r \<and> (sideEffect_expr e \<longrightarrow> sideEffect_expr r)"
  proof
    fix e
    obtain r where "f (buildMessage ?md e) ?md = ExprNode r"
      and "sideEffect_expr (msg_content (buildMessage ?md e)) \<longrightarrow> sideEffect_expr r"
      using assms(2) unfolding embedsPayload_def by blast
    then show "\<exists>r. ?rw e = Inr r \<and> (sideEffect_expr e \<longrightarrow> sideEffect_expr r)"
      by (simp add: renderer_replacement [OF assms(1)] buildMessage_def)
  qed
  then obtain err where e: "traverse_stmt ?rw (body path) = Inl err"
    using traverse_side_effect(1) assms(4) by blast
  have "\<forall>e. \<exists>r. ?rw e = Inr r" using rw by blast
  then have "err = sideEffectsError" using traverse_error(1) e by blast
  then have "handleLabeledStatement babel p path opts
           = Inl (CodeFrameError ''Logging statements cannot have side effects.'')"
    using e assms(3) by (simp add: handle_unfold [OF known] sideEffectsError_def)
  then show ?thesis using default_embeds by simp
qed

text \<open>The statement \<open>trace: x = 5\<close> with the default options.\<close>

theorem side_effects_rejected_witness:
  "handleLabeledStatement exampleBabel exampleProcess (topLevel ''trace'' assignment) defaultOpts
     = Inl (CodeFrameError ''Logging statements cannot have side effects.'')"
proof -
  let ?path = "topLevel ''trace'' assignment"
  have r: "rendererOf exampleBabel defaultOpts (label ?path) = Some (getLogFunction exampleBabel ''log'')"
    by (simp add: topLevel_fields trace_renderer)
  have e: "embedsPayload (getLogFunction exampleBabel ''log'')"
    using exampleBabel_instantiates by (rule default_embeds)
  have s: "sideEffect_stmt (body ?path)" by (simp add: topLevel_fields assignment_def)
  show ?thesis
    using side_effects_rejected [OF r e default_not_stripped s] by blast
qed

text \<open>
  An expression statement below an \<open>if\<close> in the body is rewritten like one that is a
  direct child of the body; and the message has no \<open>context\<close> property.
\<close>

theorem rewriting_counterexample:
  "handleLabeledStatement exampleBabel exampleProcess (topLevel ''trace'' nestedMessage) defaultOpts
     = Inr (ReplacedWithMultiple
              [IfStatement (Identifier ''verbose'')
                 (ExpressionStatement True (consoleLog [StringLiteral ''login::'', StringLiteral ''detail'']))
                 None],
            normalizedDefaults) \<and>
   nestedMessage =
     BlockStatement
       [IfStatement (Identifier ''verbose'') (ExpressionStatement False (StringLiteral ''detail'')) None] \<and>
   ''context'' \<notin> set (map fst (message_ids (buildMessage loginMetadata (StringLiteral ''detail''))))"
  using eval_nestedMessage by (simp add: nestedMessage_def message_ids_def)

text \<open>
  C7, amended. For a labeled statement whose label is an alias and is not stripped, when
  processing completes, every expression statement of the body that is not marked
  \<open>handled\<close>, at any depth below the body, has been replaced by a statement marked
  \<open>handled\<close> of the expression the renderer of the alias returned for the message of the
  statement's expression; every other node is as it was. The message holds the
  statement's expression as \<open>content\<close> and the metadata fields \<open>prefix\<close>,
  \<open>hasStartMessage\<close>, \<open>isStartMessage\<close>, \<open>indent\<close>, \<open>parentName\<close>, \<open>filename\<close>,
  \<open>dirname\<close>, \<open>basename\<close> and \<open>extname\<close> as literals, and no other property.
\<close>

theorem statements_rewritten:
  assumes "rendererOf babel opts (label path) = Some f"
    and "\<not> stripDecision babel p path opts"
    and "handleLabeledStatement babel p path opts = Inr (outcome, opts')"
  shows "outcome = unwrapped (rewrite_stmt (rendered f (metadataOf babel p path opts)) (body path)) \<and>
         (\<forall>e \<in> set (payloads (body path)).
            f (buildMessage (metadataOf babel p path opts) e) (metadataOf babel p path opts)
              = ExprNode (rendered f (metadataOf babel p path opts) e)) \<and>
         (\<forall>metadata e.
            buildMessage metadata e =
              \<lparr>msg_prefix = StringLiteral (md_prefix metadata),
               msg_content = e,
               msg_hasStartMessage = BooleanLiteral (md_hasStartMessage metadata),
               msg_isStartMessage = BooleanLiteral (md_isStartMessage metadata),
               msg_indent = NumericLiteral (int (md_indent metadata)),
               msg_parentName = StringLiteral (md_parentName metadata),
               msg_filename = StringLiteral (md_filename metadata),
               msg_dirname = StringLiteral (md_dirname metadata),
               msg_basename = StringLiteral (md_basename metadata),
               msg_extname = StringLiteral (md_extname metadata)\<rparr> \<and>
            map fst (message_ids (buildMessage metadata e)) =
              [''prefix'', ''content'', ''hasStartMessage'', ''isStartMessage'', ''indent'',
               ''parentName'', ''filename'', ''dirname'', ''basename'', ''extname''])"
proof -
  let ?md = "metadataOf babel p path opts"
  let ?rw = "replacementFor (normalizeOpts babel opts) (label path) ?md"
  have known: "has_alias (normalizeOpts babel opts) (label path)"
    using assms(1) by (rule renderer_has_alias)
  obtain s' where t: "traverse_stmt ?rw (body path) = Inr s'" and o: "outcome = unwrapped s'"
    using assms(2,3) by (auto simp: handle_unfold [OF known] split: sum.splits)
  have g: "(\<lambda>e. case ?rw e of Inr r \<Rightarrow> r | Inl err \<Rightarrow> e) = rendered f ?md"
    by (rule ext) (simp add: renderer_replacement [OF assms(1)] rendered_def split: node.splits)
  have 1: "s' = rewrite_stmt (rendered f ?md) (body path)"
    using traverse_rewrite(1) [OF t] g by simp
  have 2: "\<forall>e \<in> set (payloads (body path)). f (buildMessage ?md e) ?md = ExprNode (rendered f ?md e)"
  proof
    fix e assume "e \<in> set (payloads (body path))"
    then obtain r where "?rw e = Inr r" using traverse_rewrite(1) [OF t] by blast
    then show "f (buildMessage ?md e) ?md = ExprNode (rendered f ?md e)"
      by (simp add: renderer_replacement [OF assms(1)] rendered_def split: node.splits)
  qed
  from o 1 2 show ?thesis by (simp add: buildMessage_def message_ids_def)
qed

text \<open>The message below the \<open>if\<close>, with the default options.\<close>

theorem statements_rewritten_witness:
  "ReplacedWithMultiple
     [IfStatement (Identifier ''verbose'')
        (ExpressionStatement True (consoleLog [StringLiteral ''login::'', StringLiteral ''detail'']))
        None]
   = unwrapped (rewrite_stmt (rendered (getLogFunction exampleBabel ''log'')
        (metadataOf exampleBabel exampleProcess (topLevel ''trace'' nestedMessage) defaultOpts))
        nestedMessage)"
proof -
  let ?path = "topLevel ''trace'' nestedMessage"
  have r: "rendererOf exampleBabel defaultOpts (label ?path) = Some (getLogFunction exampleBabel ''log'')"
    by (simp add: topLevel_fields trace_renderer)
  show ?thesis
    using statements_rewritten [OF r default_not_stripped eval_nestedMessage]
    by (simp add: topLevel_fields)
qed

section \<open>The start message in a body that is being rewritten\<close>

text \<open>
  The statements of a function of \<open>src/login.js\<close>: their metadata, and their flags as the
  scan of the function's body gives them.
\<close>

lemma pathAt_metadata:
  assumes "cwd p = ''/home/user/project''" and "name \<noteq> []"
  shows "collectMetadata p (pathAt name ss i) opts =
     \<lparr>md_indent = 0, md_prefix = ''login'', md_parentName = name,
      md_context = ''login:'' @ name,
      md_hasStartMessage = fst (startMessageScan opts (Some i) 0 ss),
      md_isStartMessage = snd (startMessageScan opts (Some i) 0 ss),
      md_filename = ''/home/user/project/src/login.js'', md_dirname = ''/home/user/project/src'',
      md_basename = ''login'', md_extname = ''.js''\<rparr>"
  using assms
  by (simp add: collectMetadata_def Let_def pathAt_def
      fspath_resolve_def fspath_dirname_def fspath_extname_def fspath_basename_ext_def
      last_component_def strip_trailing_slashes_def isSlash_def generatePrefix_def startMessage_def
      set_parent_def)

lemma pathAt_scope:
  "nearestScope (pathAt name ss i) = Some (FunctionPath (Some name) 3 ss)"
  "body_index (pathAt name ss i) = Some i"
  by (simp_all add: nearestScope_def pathAt_def)

lemma pathAt_flags:
  "startFlags (collectMetadata p (pathAt name ss i) opts) = startMessageScan opts (Some i) 0 ss"
  by (simp add: collectMetadata_flags pathAt_scope startMessage_def)

lemma stripAll_aliases:
  "has_alias (normalizeOpts exampleBabel stripAll) ''trace''"
  "has_alias (normalizeOpts exampleBabel stripAll) ''warn''"
  by (simp_all add: normalizeOpts_def stripAll_def has_alias_def Let_def)

lemma default_replacement:
  "\<not> isSequence e \<Longrightarrow>
   replacementFor normalizedDefaults ''trace'' md e = Inr (consoleLog [StringLiteral (displayPrefix md), e])"
  using getLogFunction_single [OF exampleBabel_instantiates, of "buildMessage md e" "''log''" md]
  by (simp add: replacementFor_def callAlias_def normalizedDefaults_eq defaultTable_def
      buildMessage_def consoleCall_def consoleLog_def)

lemma handle_in_function:
  assumes "label_of (ss ! i) = ''trace''" and "name \<noteq> []"
  shows "handleLabeledStatement exampleBabel exampleProcess (pathAt name ss i) defaultOpts
     = (case traverse_stmt
               (replacementFor normalizedDefaults ''trace''
                  (collectMetadata exampleProcess (pathAt name ss i) normalizedDefaults))
               (body_of (ss ! i)) of
          Inl err \<Rightarrow> Inl err
        | Inr s' \<Rightarrow> Inr (unwrapped s', normalizedDefaults))"
proof -
  have l: "label (pathAt name ss i) = ''trace''" "body (pathAt name ss i) = body_of (ss ! i)"
    using assms(1) by (simp_all add: pathAt_def)
  have a: "has_alias (normalizeOpts exampleBabel defaultOpts) (label (pathAt name ss i))"
    using defaults_have_trace by (simp add: l normalizedDefaults_def)
  have ns: "\<not> stripDecision exampleBabel exampleProcess (pathAt name ss i) defaultOpts"
    by (simp add: stripDecision_def Let_def shouldStrip_def strip_requested_def normalizeOpts_def defaultOpts_def)
  from handle_unfold [OF a, of exampleProcess] ns
  show ?thesis
    unfolding normalizedDefaults_def
    by (simp add: metadataOf_def l)
qed

text \<open>
  The first statements of the functions \<open>k\<close>, \<open>f\<close> and \<open>m\<close>, handled: the first two with
  the default options, the third with \<open>strip: true\<close> under \<open>TRACE_LEVEL=warn\<close>.
\<close>

lemma eval_ifFirst:
  "handleLabeledStatement exampleBabel exampleProcess (pathAt ''k'' ifFirst 0) defaultOpts
     = Inr (ReplacedWith detailLogged, normalizedDefaults)"
proof -
  have l: "label_of (ifFirst ! 0) = ''trace''" by (simp add: ifFirst_def)
  have c: "cwd exampleProcess = ''/home/user/project''" by (simp add: exampleProcess_def)
  show ?thesis
    unfolding handle_in_function [OF l, of "''k''", simplified]
    by (simp add: pathAt_metadata [OF c] ifFirst_def detailLogged_def default_replacement
        isSequence_def displayPrefix_def consoleLog_def unwrapped_def)
qed

lemma eval_firstOfTwo:
  "handleLabeledStatement exampleBabel exampleProcess (pathAt ''f'' twoLabels 0) defaultOpts
     = Inr (ReplacedWith
              (ExpressionStatement True (consoleLog [StringLiteral ''login:f:'', StringLiteral ''first''])),
            normalizedDefaults)"
proof -
  have l: "label_of (twoLabels ! 0) = ''trace''" by (simp add: twoLabels_def)
  have c: "cwd exampleProcess = ''/home/user/project''" by (simp add: exampleProcess_def)
  show ?thesis
    unfolding handle_in_function [OF l, of "''f''", simplified]
    by (simp add: pathAt_metadata [OF c] twoLabels_def default_replacement
        isSequence_def displayPrefix_def consoleLog_def unwrapped_def)
qed

lemma eval_traceStripped:
  "handleLabeledStatement exampleBabel levelWarnProcess (pathAt ''m'' traceThenWarn 0) stripAll
     = Inr (Removed, normalizeOpts exampleBabel stripAll)"
proof -
  have l: "label (pathAt ''m'' traceThenWarn 0) = ''trace''"
    by (simp add: pathAt_def traceThenWarn_def)
  have a: "has_alias (normalizeOpts exampleBabel stripAll) (label (pathAt ''m'' traceThenWarn 0))"
    by (simp add: l stripAll_aliases)
  have c: "cwd levelWarnProcess = ''/home/user/project''" by (simp add: levelWarnProcess_def)
  have "stripDecision exampleBabel levelWarnProcess (pathAt ''m'' traceThenWarn 0) stripAll"
    by (simp add: stripDecision_def Let_def l pathAt_metadata [OF c] shouldStrip_def strip_requested_def
        normalizeOpts_def stripAll_def levelWarn_levels levelWarn_others
        toLowerCase_def toLowerCase_char_def)
  then show ?thesis by (simp add: handle_unfold [OF a])
qed

text \<open>
  A label whose body is an expression statement, or a block that starts with one, leaves a
  statement marked \<open>handled\<close> at the start of what stands in its place.
\<close>

lemma traverse_statement_handled:
  "traverse_stmt rw (ExpressionStatement h e) = Inr s' \<Longrightarrow> \<exists>r. s' = ExpressionStatement True r"
  by (auto split: if_splits sum.splits)

lemma contributed_handled:
  assumes known: "has_alias (normalizeOpts babel opts0) (label first)"
    and shape: "body first = ExpressionStatement h e \<or> body first = BlockStatement (ExpressionStatement h e # ss)"
    and kept: "\<not> stripDecision babel p first opts0"
    and fin: "handleLabeledStatement babel p first opts0 = Inr (result, opts1)"
  shows "\<exists>s rest. contributed first result = s # rest \<and> handled s"
proof -
  let ?rw = "replacementFor (normalizeOpts babel opts0) (label first) (metadataOf babel p first opts0)"
  obtain s' where t: "traverse_stmt ?rw (body first) = Inr s'" and r: "result = unwrapped s'"
    using fin kept by (auto simp: handle_unfold [OF known] split: sum.splits)
  from shape show ?thesis
  proof
    assume b: "body first = ExpressionStatement h e"
    then obtain x where "s' = ExpressionStatement True x"
      using t traverse_statement_handled [of ?rw h e s'] by auto
    then show ?thesis using r by (simp add: unwrapped_def)
  next
    assume b: "body first = BlockStatement (ExpressionStatement h e # ss)"
    then obtain s1 ss' where s': "s' = BlockStatement (s1 # ss')"
      and "traverse_stmt ?rw (ExpressionStatement h e) = Inr s1"
      using t by (auto split: sum.splits)
    then have "handled s1" using traverse_statement_handled [of ?rw h e s1] by auto
    then show ?thesis using r s' by (simp add: unwrapped_def)
  qed
qed

text \<open>
  In \<open>trace: 'a'; prepare(); trace: 'b'\<close> the last label comes after a statement that is
  not labeled, and has \<open>hasStartMessage\<close>: the scan stopped at the first label. In
  \<open>trace: if (verbose) 'detail'; trace: 'second'\<close> the first label is replaced by the
  \<open>if\<close> statement before the second is looked at, and the second has no flag. In
  \<open>trace: 'a'; warn: 'b'\<close> with \<open>strip: true\<close> and \<open>TRACE_LEVEL=warn\<close> the first label
  is removed before the second is looked at, and the second has both flags.
\<close>

theorem start_message_counterexample:
  "startFlags (collectMetadata exampleProcess (pathAt ''h'' callBetween 2) normalizedDefaults)
     = (True, False) \<and>
   handleLabeledStatement exampleBabel exampleProcess (pathAt ''k'' ifFirst 0) defaultOpts
     = Inr (ReplacedWith detailLogged, normalizedDefaults) \<and>
   startFlags (collectMetadata exampleProcess
       (pathAt ''k'' (afterFirst (pathAt ''k'' ifFirst 0) (ReplacedWith detailLogged) ifFirst) 1)
       normalizedDefaults)
     = (False, False) \<and>
   handleLabeledStatement exampleBabel levelWarnProcess (pathAt ''m'' traceThenWarn 0) stripAll
     = Inr (Removed, normalizeOpts exampleBabel stripAll) \<and>
   startFlags (collectMetadata levelWarnProcess
       (pathAt ''m'' (afterFirst (pathAt ''m'' traceThenWarn 0) Removed traceThenWarn) 0)
       (normalizeOpts exampleBabel stripAll))
     = (True, True)"
proof -
  have 1: "startFlags (collectMetadata exampleProcess (pathAt ''h'' callBetween 2) normalizedDefaults)
     = (True, False)"
    by (simp add: pathAt_flags callBetween_def defaults_have_trace)
  have 2: "startFlags (collectMetadata exampleProcess
       (pathAt ''k'' (afterFirst (pathAt ''k'' ifFirst 0) (ReplacedWith detailLogged) ifFirst) 1)
       normalizedDefaults) = (False, False)"
    by (simp add: pathAt_flags afterFirst_def ifFirst_def detailLogged_def)
  have 3: "startFlags (collectMetadata levelWarnProcess
       (pathAt ''m'' (afterFirst (pathAt ''m'' traceThenWarn 0) Removed traceThenWarn) 0)
       (normalizeOpts exampleBabel stripAll)) = (True, True)"
    by (simp add: pathAt_flags afterFirst_def traceThenWarn_def stripAll_aliases)
  from 1 2 3 eval_ifFirst eval_traceStripped show ?thesis by blast
qed

text \<open>
  C6, amended. When the nearest enclosing scope of the label exists and is not the program,
  the statements of the scope's body, as they stand when the label is looked at, are
  scanned from the first; without such a scope no flag is set. A child that carries the
  \<open>handled\<close> marker sets \<open>hasStartMessage\<close> and stops; a child that is not a labeled
  statement stops with no flag set; a labeled child whose label is an alias sets
  \<open>hasStartMessage\<close>, sets \<open>isStartMessage\<close> as well when it is the statement looked at,
  and stops. So when the body starts with an alias label, that label has both flags and
  every other statement looked at has \<open>hasStartMessage\<close> only. Once the first label has
  been handled the body has changed: if the label was kept and its body was an expression
  statement, or a block that starts with one, a marked statement stands at the start and
  every label looked at afterwards has \<open>hasStartMessage\<close> only; if the label was removed,
  the flags are those of the scan of the statements that followed it. A label in a body
  that starts with a marked statement has \<open>hasStartMessage\<close> only, and a label in a body
  that starts with an unmarked statement that is not labeled has neither flag.
\<close>

theorem start_message_detection:
  "(\<forall>item. nearestScope path = Some item \<and> item \<noteq> ProgramPath \<longrightarrow>
      startFlags (collectMetadata p path opts)
        = startMessageScan opts (body_index path) 0 (scope_children item)) \<and>
   (nearestScope path = None \<or> nearestScope path = Some ProgramPath \<longrightarrow>
      startFlags (collectMetadata p path opts) = (False, False)) \<and>
   (handled child \<longrightarrow> startMessageScan opts self i (child # rest) = (True, False)) \<and>
   (\<not> handled child \<and> \<not> isLabeledStatement child \<longrightarrow>
      startMessageScan opts self i (child # rest) = (False, False)) \<and>
   (has_alias opts name \<longrightarrow>
      startMessageScan opts self i (LabeledStatement name b # rest) = (True, self = Some i)) \<and>
   (\<forall>item n1 b1 others.
      nearestScope path = Some item \<and> item \<noteq> ProgramPath \<and>
      scope_children item = LabeledStatement n1 b1 # others \<and> has_alias opts n1 \<longrightarrow>
        (body_index path = Some 0 \<longrightarrow> startFlags (collectMetadata p path opts) = (True, True)) \<and>
        (body_index path \<noteq> Some 0 \<longrightarrow> startFlags (collectMetadata p path opts) = (True, False))) \<and>
   (\<forall>item first babel p0 opts0 result opts1 h e ss before.
      has_alias (normalizeOpts babel opts0) (label first) \<and>
      (body first = ExpressionStatement h e \<or>
       body first = BlockStatement (ExpressionStatement h e # ss)) \<and>
      \<not> stripDecision babel p0 first opts0 \<and>
      handleLabeledStatement babel p0 first opts0 = Inr (result, opts1) \<and>
      nearestScope path = Some item \<and> item \<noteq> ProgramPath \<and>
      scope_children item = afterFirst first result before \<longrightarrow>
        startFlags (collectMetadata p path opts) = (True, False)) \<and>
   (\<forall>item first babel p0 opts0 opts1 before.
      handleLabeledStatement babel p0 first opts0 = Inr (Removed, opts1) \<and>
      nearestScope path = Some item \<and> item \<noteq> ProgramPath \<and>
      scope_children item = afterFirst first Removed before \<longrightarrow>
        startFlags (collectMetadata p path opts)
          = startMessageScan opts (body_index path) 0 (tl before)) \<and>
   (\<forall>item s others.
      nearestScope path = Some item \<and> item \<noteq> ProgramPath \<and>
      scope_children item = s # others \<and> handled s \<longrightarrow>
        startFlags (collectMetadata p path opts) = (True, False)) \<and>
   (\<forall>item s others.
      nearestScope path = Some item \<and> item \<noteq> ProgramPath \<and>
      scope_children item = s # others \<and> \<not> handled s \<and> \<not> isLabeledStatement s \<longrightarrow>
        startFlags (collectMetadata p path opts) = (False, False))"
proof -
  have scan: "startFlags (collectMetadata p path opts)
        = startMessageScan opts (body_index path) 0 (scope_children item)"
    if "nearestScope path = Some item \<and> item \<noteq> ProgramPath" for item
    using that by (simp add: collectMetadata_flags startMessage_def)
  have none: "startFlags (collectMetadata p path opts) = (False, False)"
    if "nearestScope path = None \<or> nearestScope path = Some ProgramPath"
    using that by (auto simp: collectMetadata_flags startMessage_def)
  have marked: "startMessageScan opts self i (child # rest) = (True, False)" if "handled child"
    using that by (rule scan_handled)
  have plain: "startMessageScan opts self i (child # rest) = (False, False)"
    if "\<not> handled child \<and> \<not> isLabeledStatement child"
    using that scan_unlabeled by blast
  have known: "startMessageScan opts self i (LabeledStatement name b # rest) = (True, self = Some i)"
    if "has_alias opts name"
    using that by (rule scan_alias)
  have labelFirst:
    "(body_index path = Some 0 \<longrightarrow> startFlags (collectMetadata p path opts) = (True, True)) \<and>
     (body_index path \<noteq> Some 0 \<longrightarrow> startFlags (collectMetadata p path opts) = (True, False))"
    if "nearestScope path = Some item \<and> item \<noteq> ProgramPath \<and>
        scope_children item = LabeledStatement n1 b1 # others \<and> has_alias opts n1"
    for item n1 b1 others
    using that scan [of item] by simp
  have markedFirst: "startFlags (collectMetadata p path opts) = (True, False)"
    if "nearestScope path = Some item \<and> item \<noteq> ProgramPath \<and>
        scope_children item = s # others \<and> handled s"
    for item s others
    using that scan [of item] by simp
  have rewritten: "startFlags (collectMetadata p path opts) = (True, False)"
    if asm: "has_alias (normalizeOpts babel opts0) (label first) \<and>
        (body first = ExpressionStatement h e \<or>
         body first = BlockStatement (ExpressionStatement h e # ss)) \<and>
        \<not> stripDecision babel p0 first opts0 \<and>
        handleLabeledStatement babel p0 first opts0 = Inr (result, opts1) \<and>
        nearestScope path = Some item \<and> item \<noteq> ProgramPath \<and>
        scope_children item = afterFirst first result before"
    for item first babel p0 opts0 result opts1 h e ss before
  proof -
    obtain s others where "contributed first result = s # others" and "handled s"
      using contributed_handled [of babel opts0 first h e ss p0 result opts1] asm by blast
    then have "scope_children item = s # (others @ tl before) \<and> handled s"
      using asm by (simp add: afterFirst_def)
    then show ?thesis using markedFirst [of item s "others @ tl before"] asm by blast
  qed
  have removed: "startFlags (collectMetadata p path opts)
          = startMessageScan opts (body_index path) 0 (tl before)"
    if "handleLabeledStatement babel p0 first opts0 = Inr (Removed, opts1) \<and>
        nearestScope path = Some item \<and> item \<noteq> ProgramPath \<and>
        scope_children item = afterFirst first Removed before"
    for item first babel p0 opts0 opts1 before
    using that scan [of item] by (simp add: afterFirst_def)
  have plainFirst: "startFlags (collectMetadata p path opts) = (False, False)"
    if "nearestScope path = Some item \<and> item \<noteq> ProgramPath \<and>
        scope_children item = s # others \<and> \<not> handled s \<and> \<not> isLabeledStatement s"
    for item s others
    using that scan [of item] scan_unlabeled [of s opts "body_index path" 0 others] by simp
  have c1: "\<forall>item. nearestScope path = Some item \<and> item \<noteq> ProgramPath \<longrightarrow>
      startFlags (collectMetadata p path opts)
        = startMessageScan opts (body_index path) 0 (scope_children item)"
    using scan by blast
  have c2: "nearestScope path = None \<or> nearestScope path = Some ProgramPath \<longrightarrow>
      startFlags (collectMetadata p path opts) = (False, False)"
    using none by blast
  have c3: "handled child \<longrightarrow> startMessageScan opts self i (child # rest) = (True, False)"
    using marked by blast
  have c4: "\<not> handled child \<and> \<not> isLabeledStatement child \<longrightarrow>
      startMessageScan opts self i (child # rest) = (False, False)"
    using plain by blast
  have c5: "has_alias opts name \<longrightarrow>
      startMessageScan opts self i (LabeledStatement name b # rest) = (True, self = Some i)"
    using known by blast
  have c6: "\<forall>item n1 b1 others.
      nearestScope path = Some item \<and> item \<noteq> ProgramPath \<and>
      scope_children item = LabeledStatement n1 b1 # others \<and> has_alias opts n1 \<longrightarrow>
        (body_index path = Some 0 \<longrightarrow> startFlags (collectMetadata p path opts) = (True, True)) \<and>
        (body_index path \<noteq> Some 0 \<longrightarrow> startFlags (collectMetadata p path opts) = (True, False))"
    using labelFirst by blast
  have c7: "\<forall>item first babel p0 opts0 result opts1 h e ss before.
      has_alias (normalizeOpts babel opts0) (label first) \<and>
      (body first = ExpressionStatement h e \<or>
       body first = BlockStatement (ExpressionStatement h e # ss)) \<and>
      \<not> stripDecision babel p0 first opts0 \<and>
      handleLabeledStatement babel p0 first opts0 = Inr (result, opts1) \<and>
      nearestScope path = Some item \<and> item \<noteq> ProgramPath \<and>
      scope_children item = afterFirst first result before \<longrightarrow>
        startFlags (collectMetadata p path opts) = (True, False)"
    using rewritten by blast
  have c8: "\<forall>item first babel p0 opts0 opts1 before.
      handleLabeledStatement babel p0 first opts0 = Inr (Removed, opts1) \<and>
      nearestScope path = Some item \<and> item \<noteq> ProgramPath \<and>
      scope_children item = afterFirst first Removed before \<longrightarrow>
        startFlags (collectMetadata p path opts)
          = startMessageScan opts (body_index path) 0 (tl before)"
    using removed by blast
  have c9: "\<forall>item s others.
      nearestScope path = Some item \<and> item \<noteq> ProgramPath \<and>
      scope_children item = s # others \<and> handled s \<longrightarrow>
        startFlags (collectMetadata p path opts) = (True, False)"
    using markedFirst by blast
  have c10: "\<forall>item s others.
      nearestScope path = Some item \<and> item \<noteq> ProgramPath \<and>
      scope_children item = s # others \<and> \<not> handled s \<and> \<not> isLabeledStatement s \<longrightarrow>
        startFlags (collectMetadata p path opts) = (False, False)"
    using plainFirst by blast
  show ?thesis
    by (intro conjI; fact)
qed

text \<open>
  The two labels at the start of \<open>f\<close>, before and after the first is rewritten; the label
  after the call in \<open>g\<close>; a label at the top level of a program; the label left in \<open>m\<close>;
  the label after the \<open>if\<close> in \<open>k\<close>; and scans of bodies that start with a marked
  statement, a call and an alias label.
\<close>

theorem start_message_detection_witness:
  "startFlags (collectMetadata exampleProcess (labelAt 0) normalizedDefaults) = (True, True) \<and>
   startFlags (collectMetadata exampleProcess (labelAt 1) normalizedDefaults) = (True, False) \<and>
   startFlags (collectMetadata exampleProcess (labelAt 1) normalizedDefaults)
     = startMessageScan normalizedDefaults (Some 1) 0 twoLabels \<and>
   startFlags (collectMetadata exampleProcess labelAfterCall normalizedDefaults) = (False, False) \<and>
   startFlags (collectMetadata exampleProcess modelsIndexPath normalizedDefaults) = (False, False) \<and>
   startFlags (collectMetadata exampleProcess
       (pathAt ''f''
          (afterFirst (pathAt ''f'' twoLabels 0)
             (ReplacedWith
                (ExpressionStatement True (consoleLog [StringLiteral ''login:f:'', StringLiteral ''first''])))
             twoLabels) 1)
       normalizedDefaults) = (True, False) \<and>
   startFlags (collectMetadata levelWarnProcess
       (pathAt ''m'' (afterFirst (pathAt ''m'' traceThenWarn 0) Removed traceThenWarn) 0)
       (normalizeOpts exampleBabel stripAll))
     = startMessageScan (normalizeOpts exampleBabel stripAll) (Some 0) 0 (tl traceThenWarn) \<and>
   startFlags (collectMetadata exampleProcess
       (pathAt ''k'' (detailLogged # tl ifFirst) 1) normalizedDefaults) = (False, False) \<and>
   startFlags (collectMetadata exampleProcess
       (pathAt ''g'' (ExpressionStatement True (consoleLog [StringLiteral ''login:g:'']) # callFirst) 2)
       normalizedDefaults) = (True, False) \<and>
   startMessageScan normalizedDefaults (Some 1) 0
       (ExpressionStatement True (consoleLog [StringLiteral ''login:g:'']) # callFirst) = (True, False) \<and>
   startMessageScan normalizedDefaults (Some 1) 0
       (ExpressionStatement False (CallExpression (Identifier ''prepare'') []) # tl callFirst)
     = (False, False) \<and>
   startMessageScan normalizedDefaults (Some 1) 1
       (LabeledStatement ''trace'' (ExpressionStatement False (StringLiteral ''second'')) # [])
     = (True, True)"
proof -
  let ?f = "FunctionPath (Some ''f'') 3 twoLabels"
  let ?g = "FunctionPath (Some ''g'') 9 callFirst"
  let ?first = "LabeledStatement ''trace'' (ExpressionStatement False (StringLiteral ''first''))"
  let ?prepare = "ExpressionStatement False (CallExpression (Identifier ''prepare'') [])"
  let ?logged = "ExpressionStatement True (consoleLog [StringLiteral ''login:f:'', StringLiteral ''first''])"
  let ?marked = "ExpressionStatement True (consoleLog [StringLiteral ''login:g:''])"
  have two: "\<And>j. nearestScope (labelAt j) = Some ?f \<and> ?f \<noteq> ProgramPath \<and>
      scope_children ?f = ?first # tl twoLabels \<and> has_alias normalizedDefaults ''trace''"
    by (simp add: nearestScope_def labelAt_def twoLabels_def defaults_have_trace)
  have i0: "body_index (labelAt 0) = Some 0" and i1: "body_index (labelAt 1) \<noteq> Some 0"
    by (simp_all add: labelAt_def)
  have 1: "startFlags (collectMetadata exampleProcess (labelAt 0) normalizedDefaults) = (True, True)"
    using start_message_detection [where path = "labelAt 0" and p = exampleProcess
        and opts = normalizedDefaults,
        THEN conjunct2, THEN conjunct2, THEN conjunct2, THEN conjunct2, THEN conjunct2,
        THEN conjunct1] two [of 0] i0
    by blast
  have 2: "startFlags (collectMetadata exampleProcess (labelAt 1) normalizedDefaults) = (True, False)"
    using start_message_detection [where path = "labelAt 1" and p = exampleProcess
        and opts = normalizedDefaults,
        THEN conjunct2, THEN conjunct2, THEN conjunct2, THEN conjunct2, THEN conjunct2,
        THEN conjunct1] two [of 1] i1
    by blast
  have "startFlags (collectMetadata exampleProcess (labelAt 1) normalizedDefaults)
     = startMessageScan normalizedDefaults (body_index (labelAt 1)) 0 (scope_children ?f)"
    using start_message_detection [where path = "labelAt 1" and p = exampleProcess
        and opts = normalizedDefaults,
        THEN conjunct1] two [of 1]
    by blast
  then have 3: "startFlags (collectMetadata exampleProcess (labelAt 1) normalizedDefaults)
     = startMessageScan normalizedDefaults (Some 1) 0 twoLabels"
    by (simp add: labelAt_def)
  have call: "nearestScope labelAfterCall = Some ?g \<and> ?g \<noteq> ProgramPath \<and>
      scope_children ?g = ?prepare # tl callFirst \<and>
      \<not> handled ?prepare \<and> \<not> isLabeledStatement ?prepare"
    by (simp add: nearestScope_def labelAfterCall_def callFirst_def isLabeledStatement_def)
  have 4: "startFlags (collectMetadata exampleProcess labelAfterCall normalizedDefaults) = (False, False)"
    using start_message_detection [where path = labelAfterCall and p = exampleProcess
        and opts = normalizedDefaults,
        THEN conjunct2, THEN conjunct2, THEN conjunct2, THEN conjunct2, THEN conjunct2,
        THEN conjunct2, THEN conjunct2, THEN conjunct2, THEN conjunct2] call
    by blast
  have prog: "nearestScope modelsIndexPath = None \<or> nearestScope modelsIndexPath = Some ProgramPath"
    by (simp add: nearestScope_def modelsIndexPath_def)
  have 5: "startFlags (collectMetadata exampleProcess modelsIndexPath normalizedDefaults) = (False, False)"
    using start_message_detection [where path = modelsIndexPath and p = exampleProcess
        and opts = normalizedDefaults,
        THEN conjunct2, THEN conjunct1] prog
    by blast
  let ?one = "pathAt ''f'' twoLabels 0"
  let ?after = "afterFirst ?one (ReplacedWith ?logged) twoLabels"
  let ?fa = "FunctionPath (Some ''f'') 3 ?after"
  have rewritten: "has_alias (normalizeOpts exampleBabel defaultOpts) (label ?one) \<and>
      (body ?one = ExpressionStatement False (StringLiteral ''first'') \<or>
       body ?one = BlockStatement (ExpressionStatement False (StringLiteral ''first'') # [])) \<and>
      \<not> stripDecision exampleBabel exampleProcess ?one defaultOpts \<and>
      handleLabeledStatement exampleBabel exampleProcess ?one defaultOpts
        = Inr (ReplacedWith ?logged, normalizedDefaults) \<and>
      nearestScope (pathAt ''f'' ?after 1) = Some ?fa \<and> ?fa \<noteq> ProgramPath \<and>
      scope_children ?fa = afterFirst ?one (ReplacedWith ?logged) twoLabels"
  proof -
    have "label ?one = ''trace''" "body ?one = ExpressionStatement False (StringLiteral ''first'')"
      by (simp_all add: pathAt_def twoLabels_def)
    moreover have "has_alias (normalizeOpts exampleBabel defaultOpts) ''trace''"
      using defaults_have_trace by (simp add: normalizedDefaults_def)
    moreover have "\<not> stripDecision exampleBabel exampleProcess ?one defaultOpts"
      by (simp add: stripDecision_def Let_def shouldStrip_def strip_requested_def normalizeOpts_def
          defaultOpts_def)
    ultimately show ?thesis by (simp add: eval_firstOfTwo pathAt_scope)
  qed
  have 6: "startFlags (collectMetadata exampleProcess (pathAt ''f'' ?after 1) normalizedDefaults)
      = (True, False)"
    using start_message_detection [where path = "pathAt ''f'' ?after 1" and p = exampleProcess
        and opts = normalizedDefaults,
        THEN conjunct2, THEN conjunct2, THEN conjunct2, THEN conjunct2, THEN conjunct2,
        THEN conjunct2, THEN conjunct1] rewritten
    by blast
  let ?trace = "pathAt ''m'' traceThenWarn 0"
  let ?left = "afterFirst ?trace Removed traceThenWarn"
  let ?m = "FunctionPath (Some ''m'') 3 ?left"
  have removed: "handleLabeledStatement exampleBabel levelWarnProcess ?trace stripAll
        = Inr (Removed, normalizeOpts exampleBabel stripAll) \<and>
      nearestScope (pathAt ''m'' ?left 0) = Some ?m \<and> ?m \<noteq> ProgramPath \<and>
      scope_children ?m = afterFirst ?trace Removed traceThenWarn"
    by (simp add: eval_traceStripped pathAt_scope)
  have "startFlags (collectMetadata levelWarnProcess (pathAt ''m'' ?left 0) (normalizeOpts exampleBabel stripAll))
      = startMessageScan (normalizeOpts exampleBabel stripAll) (body_index (pathAt ''m'' ?left 0)) 0
          (tl traceThenWarn)"
    using start_message_detection [where path = "pathAt ''m'' ?left 0" and p = levelWarnProcess
        and opts = "normalizeOpts exampleBabel stripAll",
        THEN conjunct2, THEN conjunct2, THEN conjunct2, THEN conjunct2, THEN conjunct2,
        THEN conjunct2, THEN conjunct2, THEN conjunct1] removed
    by blast
  then have 7: "startFlags (collectMetadata levelWarnProcess (pathAt ''m'' ?left 0) (normalizeOpts exampleBabel stripAll))
      = startMessageScan (normalizeOpts exampleBabel stripAll) (Some 0) 0 (tl traceThenWarn)"
    by (simp add: pathAt_scope)
  let ?k = "FunctionPath (Some ''k'') 3 (detailLogged # tl ifFirst)"
  have plain: "nearestScope (pathAt ''k'' (detailLogged # tl ifFirst) 1) = Some ?k \<and> ?k \<noteq> ProgramPath \<and>
      scope_children ?k = detailLogged # tl ifFirst \<and>
      \<not> handled detailLogged \<and> \<not> isLabeledStatement detailLogged"
    by (simp add: pathAt_scope detailLogged_def isLabeledStatement_def)
  have 8: "startFlags (collectMetadata exampleProcess
       (pathAt ''k'' (detailLogged # tl ifFirst) 1) normalizedDefaults) = (False, False)"
    using start_message_detection [where path = "pathAt ''k'' (detailLogged # tl ifFirst) 1"
        and p = exampleProcess and opts = normalizedDefaults,
        THEN conjunct2, THEN conjunct2, THEN conjunct2, THEN conjunct2, THEN conjunct2,
        THEN conjunct2, THEN conjunct2, THEN conjunct2, THEN conjunct2] plain
    by blast
  let ?gm = "FunctionPath (Some ''g'') 3 (?marked # callFirst)"
  have marked: "nearestScope (pathAt ''g'' (?marked # callFirst) 2) = Some ?gm \<and> ?gm \<noteq> ProgramPath \<and>
      scope_children ?gm = ?marked # callFirst \<and> handled ?marked"
    by (simp add: pathAt_scope)
  have 9: "startFlags (collectMetadata exampleProcess (pathAt ''g'' (?marked # callFirst) 2)
       normalizedDefaults) = (True, False)"
    using start_message_detection [where path = "pathAt ''g'' (?marked # callFirst) 2"
        and p = exampleProcess and opts = normalizedDefaults,
        THEN conjunct2, THEN conjunct2, THEN conjunct2, THEN conjunct2, THEN conjunct2,
        THEN conjunct2, THEN conjunct2, THEN conjunct2, THEN conjunct1] marked
    by blast
  have "handled ?marked" by simp
  then have 10: "startMessageScan normalizedDefaults (Some 1) 0 (?marked # callFirst) = (True, False)"
    using start_message_detection [where opts = normalizedDefaults and child = ?marked
        and self = "Some 1" and i = 0 and rest = callFirst,
        THEN conjunct2, THEN conjunct2, THEN conjunct1]
    by blast
  have "\<not> handled ?prepare \<and> \<not> isLabeledStatement ?prepare"
    by (simp add: isLabeledStatement_def)
  then have 11: "startMessageScan normalizedDefaults (Some 1) 0 (?prepare # tl callFirst) = (False, False)"
    using start_message_detection [where opts = normalizedDefaults and child = ?prepare
        and self = "Some 1" and i = 0 and rest = "tl callFirst",
        THEN conjunct2, THEN conjunct2, THEN conjunct2, THEN conjunct1]
    by blast
  have "startMessageScan normalizedDefaults (Some 1) 1
       (LabeledStatement ''trace'' (ExpressionStatement False (StringLiteral ''second'')) # [])
     = (True, Some 1 = Some (1::nat))"
    using start_message_detection [where opts = normalizedDefaults and name = "''trace''"
        and self = "Some 1" and i = 1 and rest = "[]"
        and b = "ExpressionStatement False (StringLiteral ''second'')",
        THEN conjunct2, THEN conjunct2, THEN conjunct2, THEN conjunct2, THEN conjunct1] defaults_have_trace
    by blast
  then have 12: "startMessageScan normalizedDefaults (Some 1) 1
       (LabeledStatement ''trace'' (ExpressionStatement False (StringLiteral ''second'')) # [])
     = (True, True)"
    by simp
  from 1 2 3 4 5 6 7 8 9 10 11 12 show ?thesis by blast
qed

end
